theory Spec2Isabelle
  imports Complex_Main "HOL-Library.Word" "HOL-Library.AList"
begin

unbundle bit_operations_syntax

section \<open>Bytes, Go strings, dynamic values and errors\<close>

text \<open>
  A Go \<^verbatim>\<open>[]byte\<close> is a list of 8-bit words; a Go \<^verbatim>\<open>string\<close> is an Isabelle
  \<^typ>\<open>string\<close> (both are byte sequences), with the conversions \<^verbatim>\<open>[]byte(s)\<close> and
  \<^verbatim>\<open>string(b)\<close> written out.
\<close>

type_synonym byte = "8 word"
type_synonym bytes = "byte list"

definition bytes_of_string :: "string \<Rightarrow> bytes" where
  "bytes_of_string s = map (\<lambda>c. word_of_nat (of_char c)) s"

definition string_of_bytes :: "bytes \<Rightarrow> string" where
  "string_of_bytes b = map (\<lambda>v. char_of (unat v)) b"

text \<open>
  Every error return and every run-time panic of the source is a value of this type.
  \<open>VersionNotSupported\<close> and \<open>CipherNotSupported\<close> are the two \<^verbatim>\<open>fmt.Errorf\<close> results
  of \<^verbatim>\<open>decryptExtendedKey\<close>; \<open>ErrDecrypt\<close> is the keystore's authentication error;
  \<open>LibraryError\<close> stands for whatever error a library function taken as a parameter
  reports.
\<close>

datatype error =
    ErrDecrypt
  | VersionNotSupported int
  | CipherNotSupported string
  | UnsupportedKDF string
  | HexErrLength
  | HexInvalidByte char
  | ScryptParams
  | AESKeySize nat
  | RuntimePanic string
  | ErrNoMatch
  | ErrAmbiguousAddr
  | StorageError
  | LibraryError string

text \<open>
  The values a Go \<^verbatim>\<open>interface{}\<close> holds in this code: an \<^verbatim>\<open>int\<close> put there by the
  program, a \<^verbatim>\<open>float64\<close> put there by the JSON decoder (a finite float is a rational),
  a string, or something else.
\<close>

datatype iface = IInt int | IFloat64 rat | IString string | IOther

subsection \<open>encoding/hex\<close>

text \<open>
  \<^verbatim>\<open>hex.EncodeToString\<close> writes two lower-case digits for a byte, the high four bits
  first. \<^verbatim>\<open>hex.DecodeString\<close> reads digits of both cases, two for a byte, and fails on a
  character that is no digit and on a string of odd length.
\<close>

definition hextable :: string where
  "hextable = ''0123456789abcdef''"

definition hex_EncodeToString :: "bytes \<Rightarrow> string" where
  "hex_EncodeToString src =
     concat (map (\<lambda>v. [hextable ! unat (drop_bit 4 v), hextable ! unat (v AND 0x0f)]) src)"

definition fromHexChar :: "char \<Rightarrow> byte option" where
  "fromHexChar c =
     (let n = (of_char c :: nat) in
      if 48 \<le> n \<and> n \<le> 57 then Some (word_of_nat (n - 48))
      else if 97 \<le> n \<and> n \<le> 102 then Some (word_of_nat (n - 97 + 10))
      else if 65 \<le> n \<and> n \<le> 70 then Some (word_of_nat (n - 65 + 10))
      else None)"

fun hex_DecodeString :: "string \<Rightarrow> error + bytes" where
  "hex_DecodeString [] = Inr []"
| "hex_DecodeString [c] =
     (case fromHexChar c of None \<Rightarrow> Inl (HexInvalidByte c) | Some a \<Rightarrow> Inl HexErrLength)"
| "hex_DecodeString (c # d # rest) =
     (case fromHexChar c of
        None \<Rightarrow> Inl (HexInvalidByte c)
      | Some a \<Rightarrow>
          (case fromHexChar d of
             None \<Rightarrow> Inl (HexInvalidByte d)
           | Some b \<Rightarrow>
               (case hex_DecodeString rest of
                  Inl e \<Rightarrow> Inl e
                | Inr out \<Rightarrow> Inr ((push_bit 4 a OR b) # out))))"

subsection \<open>Slices\<close>

text \<open>
  \<^verbatim>\<open>s[lo:hi]\<close>: a run-time panic when the bounds are out of range (the capacity of the
  slice is taken to be its length).
\<close>

definition slice :: "'a list \<Rightarrow> nat \<Rightarrow> nat \<Rightarrow> error + 'a list" where
  "slice s lo hi =
     (if lo \<le> hi \<and> hi \<le> length s then Inr (take (hi - lo) (drop lo s))
      else Inl (RuntimePanic ''slice bounds out of range''))"

section \<open>Data model\<close>

text \<open>
  Modelled from the spec: the package \<^verbatim>\<open>extkeys\<close> is imported by the patch and is not
  part of it. An extended key is the BIP32 node of section 3 of the specification:
  key bytes, chain code, depth, parent fingerprint and child index.
\<close>

record ExtendedKey =
  KeyData :: bytes
  ChainCode :: bytes
  Depth :: nat
  FingerPrint :: bytes
  ChildNumber :: "32 word"

text \<open>
  \<^verbatim>\<open>ecdsa.PrivateKey\<close>: the public key and the words of the big integer \<^verbatim>\<open>D\<close>
  (\<^verbatim>\<open>k.D.Bits()\<close>), which is the memory \<^verbatim>\<open>zeroKey\<close> overwrites.
\<close>

record ecdsa_PrivateKey =
  PublicKey :: bytes
  D :: "nat list"

text \<open>\<^verbatim>\<open>type Key struct\<close> of key.go; the two pointers are options.\<close>

record Key =
  Id :: bytes
  Address :: bytes
  PrivateKey :: "ecdsa_PrivateKey option"
  ExtendedKey :: "ExtendedKey option"
  SubAccountIndex :: "32 word"

record cipherparamsJSON =
  IV :: string

record cryptoJSON =
  Cipher :: string
  CipherText :: string
  CipherParams :: cipherparamsJSON
  KDF :: string
  KDFParams :: "string \<rightharpoonup> iface"
  MAC :: string

text \<open>\<^verbatim>\<open>cryptoJSON{}\<close>, the zero value: the empty blob.\<close>

definition cryptoJSON_zero :: cryptoJSON where
  "cryptoJSON_zero =
     \<lparr>Cipher = [], CipherText = [], CipherParams = \<lparr>IV = []\<rparr>, KDF = [],
      KDFParams = Map.empty, MAC = []\<rparr>"

text \<open>\<^verbatim>\<open>encryptedKeyJSONV3\<close>, with the two fields the patch adds.\<close>

record encryptedKeyJSONV3 =
  V3_Address :: string
  V3_Crypto :: cryptoJSON
  V3_Id :: string
  V3_Version :: int
  V3_ExtendedKey :: cryptoJSON
  V3_SubAccountIndex :: "32 word"

section \<open>Library functions and constants outside the patch\<close>

text \<open>
  Modelled from the spec: the fields of \<^verbatim>\<open>encryptedKeyJSONV1\<close> lie outside the patch.
  Section 3: a legacy record has an address, a primary-key blob, an identifier and a
  version tag.
\<close>

record encryptedKeyJSONV1 =
  V1_Address :: string
  V1_Crypto :: cryptoJSON
  V1_Id :: string
  V1_Version :: string

text \<open>
  The patch calls cryptographic primitives, the \<^verbatim>\<open>extkeys\<close> package, the JSON decoder
  and the unpatched key decryption of the keystore. They are parameters of the model,
  collected in one record:
  \<^item> \<open>version\<close> and \<open>scryptR\<close>: package constants of the keystore;
  \<^item> \<open>scrypt_ok\<close>: whether scrypt accepts the cost parameters \<open>N r p keyLen\<close>;
    \<open>scrypt_stream\<close>: byte \<open>i\<close> of its output, from the HMAC key block of the passphrase;
  \<^item> \<open>sha256\<close>: the SHA-256 digest of a byte string;
  \<^item> \<open>keccak256\<close>: the hash of a byte string;
  \<^item> \<open>aes_keystream\<close>: byte \<open>i\<close> of the AES-CTR key stream for a key and an IV;
  \<^item> \<open>ckd\<close>: the elliptic-curve part of one BIP32 child derivation (key bytes, chain
    code and fingerprint of the child);
  \<^item> \<open>ToECDSA\<close>, \<open>ExtString\<close> (\<^verbatim>\<open>ExtendedKey.String\<close>), \<open>parseExt\<close> (the decoding
    of a serialized key), \<open>EmptyExtendedKeyString\<close> and \<open>CoinTypeETH\<close> of \<^verbatim>\<open>extkeys\<close>;
  \<^item> \<open>PubkeyToAddress\<close> and \<open>ToECDSAUnsafe\<close> of the \<^verbatim>\<open>crypto\<close> package;
  \<^item> \<open>uuid_NewRandom\<close>: the identifier drawn from the entropy source;
  \<^item> \<open>json_Unmarshal_map\<close>, \<open>json_Unmarshal_V1\<close>, \<open>json_Unmarshal_V3\<close>: the JSON decoder
    at the three types \<^verbatim>\<open>DecryptKey\<close> uses it at;
  \<^item> \<open>decryptKeyV1\<close> and \<open>decryptKeyV3\<close>: the unpatched decryption of the primary key,
    returning the key bytes and the identifier;
  \<^item> \<open>keyFileName\<close> (which reads the clock, here its first argument) and \<open>JoinPath\<close>.
\<close>

record env =
  version :: int
  scryptR :: int
  scrypt_ok :: "int \<Rightarrow> int \<Rightarrow> int \<Rightarrow> int \<Rightarrow> bool"
  scrypt_stream :: "bytes \<Rightarrow> bytes \<Rightarrow> int \<Rightarrow> int \<Rightarrow> int \<Rightarrow> int \<Rightarrow> nat \<Rightarrow> byte"
  sha256 :: "bytes \<Rightarrow> bytes"
  keccak256 :: "bytes \<Rightarrow> bytes"
  aes_keystream :: "bytes \<Rightarrow> bytes \<Rightarrow> nat \<Rightarrow> byte"
  ckd :: "ExtendedKey \<Rightarrow> 32 word \<Rightarrow> error + (bytes \<times> bytes \<times> bytes)"
  ToECDSA :: "ExtendedKey \<Rightarrow> ecdsa_PrivateKey"
  ExtString :: "ExtendedKey \<Rightarrow> string"
  parseExt :: "string \<Rightarrow> error + ExtendedKey"
  EmptyExtendedKeyString :: string
  CoinTypeETH :: "32 word"
  PubkeyToAddress :: "bytes \<Rightarrow> bytes"
  ToECDSAUnsafe :: "bytes \<Rightarrow> ecdsa_PrivateKey"
  uuid_NewRandom :: "(nat \<Rightarrow> byte) \<Rightarrow> bytes"
  json_Unmarshal_map :: "bytes \<Rightarrow> error + (string \<rightharpoonup> iface)"
  json_Unmarshal_V1 :: "bytes \<Rightarrow> error + encryptedKeyJSONV1"
  json_Unmarshal_V3 :: "bytes \<Rightarrow> error + encryptedKeyJSONV3"
  decryptKeyV1 :: "encryptedKeyJSONV1 \<Rightarrow> string \<Rightarrow> error + (bytes \<times> bytes)"
  decryptKeyV3 :: "encryptedKeyJSONV3 \<Rightarrow> string \<Rightarrow> error + (bytes \<times> bytes)"
  keyFileName :: "nat \<Rightarrow> bytes \<Rightarrow> string"
  JoinPath :: "string \<Rightarrow> string"

text \<open>
  Modelled from the spec: the constant \<^verbatim>\<open>scryptDKLen\<close> lies outside the patch.
  Section 4.2, step 3: the derived key has 32 bytes.
\<close>

definition scryptDKLen :: int where
  "scryptDKLen = 32"

text \<open>
  The key block of \<^verbatim>\<open>hmac.New(sha256.New, key)\<close>: a key of more than 64 bytes (the block
  size of SHA-256) is replaced by its digest, and the key is copied into a block of 64
  zero bytes.
\<close>

definition hmac_key_block :: "env \<Rightarrow> bytes \<Rightarrow> bytes" where
  "hmac_key_block E key =
     (let k = (if 64 < length key then sha256 E key else key)
      in k @ replicate (64 - length k) 0)"

text \<open>
  \<^verbatim>\<open>scrypt.Key\<close>: an error for cost parameters it rejects, \<open>keyLen\<close> bytes otherwise.
  It reads the passphrase in its two calls of \<^verbatim>\<open>pbkdf2.Key\<close> only, and PBKDF2 reads it
  only as the key of HMAC-SHA256: the output is determined by the HMAC key block of the
  passphrase, the salt and the cost parameters.
\<close>

definition scrypt_Key ::
  "env \<Rightarrow> bytes \<Rightarrow> bytes \<Rightarrow> int \<Rightarrow> int \<Rightarrow> int \<Rightarrow> int \<Rightarrow> error + bytes" where
  "scrypt_Key E password salt N r p keyLen =
     (if scrypt_ok E N r p keyLen
      then Inr (map (scrypt_stream E (hmac_key_block E password) salt N r p keyLen)
                  [0..<nat keyLen])
      else Inl ScryptParams)"

text \<open>\<^verbatim>\<open>crypto.Keccak256(data ...)\<close> hashes the concatenation of its arguments.\<close>

definition Keccak256 :: "env \<Rightarrow> bytes list \<Rightarrow> bytes" where
  "Keccak256 E data = keccak256 E (concat data)"

text \<open>
  \<^verbatim>\<open>randentropy.GetEntropyCSPRNG(n)\<close>: the next \<open>n\<close> bytes of the entropy source, which
  is an explicit stream; the rest of the stream is returned with them.
\<close>

definition GetEntropyCSPRNG :: "nat \<Rightarrow> (nat \<Rightarrow> byte) \<Rightarrow> bytes \<times> (nat \<Rightarrow> byte)" where
  "GetEntropyCSPRNG n rnd = (map rnd [0..<n], \<lambda>i. rnd (i + n))"

text \<open>
  Modelled from the spec: \<^verbatim>\<open>aesCTRXOR\<close> is a helper of the patched file outside the
  patch hunks. Section 4.2, step 5: a CTR-mode block cipher under the key and the IV,
  the output as long as the input. \<^verbatim>\<open>aes.NewCipher\<close> returns an error for a key that has
  not 16, 24 or 32 bytes, and \<^verbatim>\<open>cipher.NewCTR\<close> panics for an IV that is not one block.
\<close>

definition aesCTRXOR :: "env \<Rightarrow> bytes \<Rightarrow> bytes \<Rightarrow> bytes \<Rightarrow> error + bytes" where
  "aesCTRXOR E key inText iv =
     (if length key \<noteq> 16 \<and> length key \<noteq> 24 \<and> length key \<noteq> 32
      then Inl (AESKeySize (length key))
      else if length iv \<noteq> 16
      then Inl (RuntimePanic ''cipher.NewCTR: IV length must equal block size'')
      else Inr (map (\<lambda>(i, b). b XOR aes_keystream E key iv i) (enumerate 0 inText)))"

section \<open>Authenticated encryption of the extended key\<close>

text \<open>\<^verbatim>\<open>EncryptExtendedKey\<close> of keystore\_passphrase.go.\<close>

definition EncryptExtendedKey ::
  "env \<Rightarrow> (nat \<Rightarrow> byte) \<Rightarrow> ExtendedKey option \<Rightarrow> string \<Rightarrow> int \<Rightarrow> int \<Rightarrow> error + cryptoJSON"
  where
  "EncryptExtendedKey E rnd extKey auth scryptN scryptP =
     (case extKey of
        None \<Rightarrow> Inr cryptoJSON_zero
      | Some k \<Rightarrow>
          (let authArray = bytes_of_string auth;
               (salt, rnd1) = GetEntropyCSPRNG 32 rnd
           in case scrypt_Key E authArray salt scryptN (scryptR E) scryptP scryptDKLen of
                Inl e \<Rightarrow> Inl e
              | Inr derivedKey \<Rightarrow>
                  (case slice derivedKey 0 16 of
                     Inl e \<Rightarrow> Inl e
                   | Inr encryptKey \<Rightarrow>
                       (let keyBytes = bytes_of_string (ExtString E k);
                            (iv, rnd2) = GetEntropyCSPRNG 16 rnd1
                        in case aesCTRXOR E encryptKey keyBytes iv of
                             Inl e \<Rightarrow> Inl e
                           | Inr cipherText \<Rightarrow>
                               (case slice derivedKey 16 32 of
                                  Inl e \<Rightarrow> Inl e
                                | Inr macKey \<Rightarrow>
                                    (let mac = Keccak256 E [macKey, cipherText];
                                         scryptParamsJSON =
                                           [''n'' \<mapsto> IInt scryptN,
                                            ''r'' \<mapsto> IInt (scryptR E),
                                            ''p'' \<mapsto> IInt scryptP,
                                            ''dklen'' \<mapsto> IInt scryptDKLen,
                                            ''salt'' \<mapsto> IString (hex_EncodeToString salt)];
                                         cipherParamsJSON = \<lparr>IV = hex_EncodeToString iv\<rparr>
                                     in Inr \<lparr>Cipher = ''aes-128-ctr'',
                                             CipherText = hex_EncodeToString cipherText,
                                             CipherParams = cipherParamsJSON,
                                             KDF = ''scrypt'',
                                             KDFParams = scryptParamsJSON,
                                             MAC = hex_EncodeToString mac\<rparr>))))))"

text \<open>
  The conversion of a \<^verbatim>\<open>float64\<close> to a 64-bit integer: the fraction is discarded. For
  a value outside the range Go leaves the result to the implementation; on amd64 it is
  the smallest 64-bit integer.
\<close>

definition int64_of_float64 :: "rat \<Rightarrow> int" where
  "int64_of_float64 f =
     (let t = (if 0 \<le> f then \<lfloor>f\<rfloor> else \<lceil>f\<rceil>)
      in if - (2 ^ 63) \<le> t \<and> t < 2 ^ 63 then t else - (2 ^ 63))"

text \<open>
  Modelled from the spec: \<^verbatim>\<open>ensureInt\<close> lies outside the patch. It reads a cost
  parameter of the blob (section 4.2, decrypt step 3), which is an \<^verbatim>\<open>int\<close> when the
  program put it there and a \<^verbatim>\<open>float64\<close> when the JSON decoder did, converted to an
  \<^verbatim>\<open>int\<close> then. A type assertion on a value of another type panics.
\<close>

definition ensureInt :: "iface option \<Rightarrow> error + int" where
  "ensureInt x =
     (case x of
        Some (IInt i) \<Rightarrow> Inr i
      | Some (IFloat64 f) \<Rightarrow> Inr (int64_of_float64 f)
      | _ \<Rightarrow> Inl (RuntimePanic ''interface conversion''))"

text \<open>
  Modelled from the spec: the body of \<^verbatim>\<open>getKDFKey\<close> after its first two statements
  (the passphrase as bytes, the salt decoded from the blob) lies outside the patch.
  Section 4.2, decrypt step 3: the derived key is recomputed by the same KDF from the
  blob's stored salt and cost parameters; section 7: an unknown KDF identifier is an
  unsupported format.
\<close>

definition getKDFKey :: "env \<Rightarrow> cryptoJSON \<Rightarrow> string \<Rightarrow> error + bytes" where
  "getKDFKey E cj auth =
     (let authArray = bytes_of_string auth
      in case KDFParams cj ''salt'' of
           Some (IString s) \<Rightarrow>
             (case hex_DecodeString s of
                Inl e \<Rightarrow> Inl e
              | Inr salt \<Rightarrow>
                  (case ensureInt (KDFParams cj ''dklen'') of
                     Inl e \<Rightarrow> Inl e
                   | Inr dkLen \<Rightarrow>
                       if KDF cj = ''scrypt'' then
                         (case ensureInt (KDFParams cj ''n'') of
                            Inl e \<Rightarrow> Inl e
                          | Inr n \<Rightarrow>
                              (case ensureInt (KDFParams cj ''r'') of
                                 Inl e \<Rightarrow> Inl e
                               | Inr r \<Rightarrow>
                                   (case ensureInt (KDFParams cj ''p'') of
                                      Inl e \<Rightarrow> Inl e
                                    | Inr p \<Rightarrow> scrypt_Key E authArray salt n r p dkLen)))
                       else Inl (UnsupportedKDF (KDF cj))))
         | _ \<Rightarrow> Inl (RuntimePanic ''interface conversion''))"

text \<open>\<^verbatim>\<open>decryptExtendedKey\<close> of keystore\_passphrase.go.\<close>

definition decryptExtendedKey :: "env \<Rightarrow> encryptedKeyJSONV3 \<Rightarrow> string \<Rightarrow> error + bytes" where
  "decryptExtendedKey E keyProtected auth =
     (if length (CipherText (V3_ExtendedKey keyProtected)) = 0
      then Inr (bytes_of_string (EmptyExtendedKeyString E))
      else if V3_Version keyProtected \<noteq> version E
      then Inl (VersionNotSupported (V3_Version keyProtected))
      else if Cipher (V3_ExtendedKey keyProtected) \<noteq> ''aes-128-ctr''
      then Inl (CipherNotSupported (Cipher (V3_ExtendedKey keyProtected)))
      else
        (case hex_DecodeString (MAC (V3_ExtendedKey keyProtected)) of
           Inl e \<Rightarrow> Inl e
         | Inr mac \<Rightarrow>
             (case hex_DecodeString (IV (CipherParams (V3_ExtendedKey keyProtected))) of
                Inl e \<Rightarrow> Inl e
              | Inr iv \<Rightarrow>
                  (case hex_DecodeString (CipherText (V3_ExtendedKey keyProtected)) of
                     Inl e \<Rightarrow> Inl e
                   | Inr cipherText \<Rightarrow>
                       (case getKDFKey E (V3_ExtendedKey keyProtected) auth of
                          Inl e \<Rightarrow> Inl e
                        | Inr derivedKey \<Rightarrow>
                            (case slice derivedKey 16 32 of
                               Inl e \<Rightarrow> Inl e
                             | Inr macKey \<Rightarrow>
                                 (let calculatedMAC = Keccak256 E [macKey, cipherText]
                                  in if calculatedMAC \<noteq> mac then Inl ErrDecrypt
                                     else
                                       (case slice derivedKey 0 16 of
                                          Inl e \<Rightarrow> Inl e
                                        | Inr k \<Rightarrow> aesCTRXOR E k cipherText iv))))))))"

section \<open>Decryption of a persisted record\<close>

text \<open>
  Modelled from the spec: the empty extended key of \<^verbatim>\<open>extkeys\<close> is not part of the
  patch. Section 3: a distinguished empty value represents "no key present"; it is the
  zero value of the struct.
\<close>

definition ExtendedKey_zero :: ExtendedKey where
  "ExtendedKey_zero =
     \<lparr>KeyData = [], ChainCode = [], Depth = 0, FingerPrint = [], ChildNumber = 0\<rparr>"

text \<open>
  Modelled from the spec: \<^verbatim>\<open>extkeys.NewKeyFromString\<close> is not part of the patch.
  Section 6: a fixed sentinel string denotes "no key"; it decodes to the empty extended
  key, and any other string goes to the decoder of serialized keys.
\<close>

definition NewKeyFromString :: "env \<Rightarrow> string \<Rightarrow> error + ExtendedKey" where
  "NewKeyFromString E s =
     (if s = EmptyExtendedKeyString E then Inr ExtendedKey_zero else parseExt E s)"

text \<open>
  \<^verbatim>\<open>uint32(subAccountIndex)\<close> on a \<^verbatim>\<open>float64\<close>: the fraction is discarded. For a value
  outside the range of \<^verbatim>\<open>uint32\<close> Go leaves the result to the implementation; on amd64
  it is the low 32 bits of the conversion to a 64-bit integer, which are 0 once the
  value is outside the range of 64 bits.
\<close>

definition uint32_of_float64 :: "rat \<Rightarrow> 32 word" where
  "uint32_of_float64 f = word_of_int (int64_of_float64 f)"

text \<open>
  \<^verbatim>\<open>DecryptKey\<close> of keystore\_passphrase.go. The decoding of the record into the map
  \<open>m\<close> precedes the patched lines (section 4.4: the top level is parsed generically
  first).
\<close>

definition DecryptKey :: "env \<Rightarrow> bytes \<Rightarrow> string \<Rightarrow> error + Key" where
  "DecryptKey E keyjson auth =
     (case json_Unmarshal_map E keyjson of
        Inl e \<Rightarrow> Inl e
      | Inr m \<Rightarrow>
          (let subAccountIndex =
                 (case m ''subaccountindex'' of Some (IFloat64 f) \<Rightarrow> f | _ \<Rightarrow> 0);
               decrypted =
                 (if m ''version'' = Some (IString ''1'') then
                    (case json_Unmarshal_V1 E keyjson of
                       Inl e \<Rightarrow> Inl e
                     | Inr k \<Rightarrow>
                         (case decryptKeyV1 E k auth of
                            Inl e \<Rightarrow> Inl e
                          | Inr (keyBytes, keyId) \<Rightarrow>
                              (case NewKeyFromString E (EmptyExtendedKeyString E) of
                                 Inl e \<Rightarrow> Inl e
                               | Inr extKey \<Rightarrow> Inr (keyBytes, keyId, extKey))))
                  else
                    (case json_Unmarshal_V3 E keyjson of
                       Inl e \<Rightarrow> Inl e
                     | Inr k \<Rightarrow>
                         (case decryptKeyV3 E k auth of
                            Inl e \<Rightarrow> Inl e
                          | Inr (keyBytes, keyId) \<Rightarrow>
                              (case decryptExtendedKey E k auth of
                                 Inl e \<Rightarrow> Inl e
                               | Inr extKeyBytes \<Rightarrow>
                                   (case NewKeyFromString E (string_of_bytes extKeyBytes) of
                                      Inl e \<Rightarrow> Inl e
                                    | Inr extKey \<Rightarrow> Inr (keyBytes, keyId, extKey))))))
           in case decrypted of
                Inl e \<Rightarrow> Inl e
              | Inr (keyBytes, keyId, extKey) \<Rightarrow>
                  (let key = ToECDSAUnsafe E keyBytes
                   in Inr \<lparr>Id = keyId,
                           Address = PubkeyToAddress E (PublicKey key),
                           PrivateKey = Some key,
                           ExtendedKey = Some extKey,
                           SubAccountIndex = uint32_of_float64 subAccountIndex\<rparr>)))"

section \<open>Derivation of the account key and the sub-account root\<close>

text \<open>
  Modelled from the spec: \<^verbatim>\<open>extkeys.HardenedKeyStart\<close> is not part of the patch.
  Glossary: a hardened derivation needs the parent's private key; in BIP32 these are the
  child indices from \<open>2^31\<close> on.
\<close>

definition HardenedKeyStart :: "32 word" where
  "HardenedKeyStart = 0x80000000"

text \<open>
  Modelled from the spec: \<^verbatim>\<open>extkeys.Child\<close> is not part of the patch. Section 3: a
  node carries its depth and its child index. One derivation step makes a node one level
  deeper with the given child index; the elliptic-curve computation is the parameter
  \<open>ckd\<close>, and its failure is the failure of the step (section 4.1).
\<close>

definition Child :: "env \<Rightarrow> ExtendedKey \<Rightarrow> 32 word \<Rightarrow> error + ExtendedKey" where
  "Child E k i =
     (case ckd E k i of
        Inl e \<Rightarrow> Inl e
      | Inr (keyData, chainCode, fingerPrint) \<Rightarrow>
          Inr \<lparr>KeyData = keyData, ChainCode = chainCode, Depth = Depth k + 1,
               FingerPrint = fingerPrint, ChildNumber = i\<rparr>)"

text \<open>
  Modelled from the spec: \<^verbatim>\<open>extkeys.Derive\<close> is not part of the patch. A path is
  derived step by step, and fails where a step fails (section 4.1).
\<close>

fun Derive :: "env \<Rightarrow> ExtendedKey \<Rightarrow> 32 word list \<Rightarrow> error + ExtendedKey" where
  "Derive E k [] = Inr k"
| "Derive E k (i # path) =
     (case Child E k i of Inl e \<Rightarrow> Inl e | Inr c \<Rightarrow> Derive E c path)"

text \<open>
  Modelled from the spec: \<^verbatim>\<open>extkeys.BIP44Child\<close> is not part of the patch. Section 4.1
  and the glossary: the derivation follows the BIP44 path purpose / coin type / account /
  chain / index, the first three hardened, under the given coin type and child index.
\<close>

definition BIP44Child :: "env \<Rightarrow> ExtendedKey \<Rightarrow> 32 word \<Rightarrow> 32 word \<Rightarrow> error + ExtendedKey" where
  "BIP44Child E k coinType i =
     Derive E k [HardenedKeyStart + 44, HardenedKeyStart + coinType, HardenedKeyStart + 0, 0, i]"

text \<open>\<^verbatim>\<open>&Key{}\<close>, the zero value a failed derivation returns with its error.\<close>

definition Key_zero :: Key where
  "Key_zero =
     \<lparr>Id = [], Address = replicate 20 0, PrivateKey = None, ExtendedKey = None,
      SubAccountIndex = 0\<rparr>"

text \<open>
  \<^verbatim>\<open>newKeyFromExtendedKey\<close> of key.go. It returns a key and an error; its first statement
  reads \<^verbatim>\<open>extKey.Depth\<close>, so the argument is a key, not a nil pointer.
\<close>

definition newKeyFromExtendedKey ::
  "env \<Rightarrow> (nat \<Rightarrow> byte) \<Rightarrow> ExtendedKey \<Rightarrow> Key \<times> error option" where
  "newKeyFromExtendedKey E rnd extKey =
     (let children =
            (if Depth extKey = 0 then
               (case BIP44Child E extKey (CoinTypeETH E) 0 of
                  Inl e \<Rightarrow> Inl e
                | Inr extChild1 \<Rightarrow>
                    (case BIP44Child E extKey (CoinTypeETH E) 1 of
                       Inl e \<Rightarrow> Inl e
                     | Inr extChild2 \<Rightarrow> Inr (extChild1, extChild2)))
             else Inr (extKey, extKey))
      in case children of
           Inl e \<Rightarrow> (Key_zero, Some e)
         | Inr (extChild1, extChild2) \<Rightarrow>
             (let privateKeyECDSA = ToECDSA E extChild1;
                  id = uuid_NewRandom E rnd
              in (\<lparr>Id = id,
                   Address = PubkeyToAddress E (PublicKey privateKeyECDSA),
                   PrivateKey = Some privateKeyECDSA,
                   ExtendedKey = Some extChild2,
                   SubAccountIndex = 0\<rparr>, None)))"

section \<open>The key store\<close>

text \<open>\<^verbatim>\<open>zeroKey\<close> of keystore.go: every word of \<^verbatim>\<open>k.D.Bits()\<close> is set to 0.\<close>

definition zeroKey :: "ecdsa_PrivateKey option \<Rightarrow> ecdsa_PrivateKey option" where
  "zeroKey k =
     (case k of
        None \<Rightarrow> None
      | Some key \<Rightarrow> Some (key\<lparr>D := map (\<lambda>b. 0) (D key)\<rparr>))"

text \<open>\<^verbatim>\<open>accounts.URL\<close> and \<^verbatim>\<open>accounts.Account\<close>, with the fields the patch sets.\<close>

record URL =
  Scheme :: string
  Path :: string

record Account =
  AccountAddress :: bytes
  AccountURL :: URL

text \<open>\<^verbatim>\<open>accounts.Account{}\<close>, the zero value.\<close>

definition Account_zero :: Account where
  "Account_zero = \<lparr>AccountAddress = replicate 20 0, AccountURL = \<lparr>Scheme = [], Path = []\<rparr>\<rparr>"

text \<open>
  Modelled from the spec: the constant \<^verbatim>\<open>KeyStoreScheme\<close> lies outside the patch; it is
  the scheme of the URL of a persisted record.
\<close>

definition KeyStoreScheme :: string where
  "KeyStoreScheme = ''keystore''"

text \<open>
  Modelled from the spec: the storage collaborator is not part of the patch. Section 6:
  it is a path-keyed persistence interface with \<open>store(path, record, passphrase)\<close>. A
  file holds a key record and the passphrase that opens it.
\<close>

record stored =
  s_key :: Key
  s_auth :: string

text \<open>
  Modelled from the spec: the state of the key store is not part of the patch. Section 2:
  the vault maintains an address cache over the storage collaborator; section 4.3: the
  cache can be stale. The state is the accounts the cache tracks, whether it is stale, the
  persisted files by path, and the paths that cannot be written (section 7: storage
  errors).
\<close>

record KeyStore =
  cache :: "Account list"
  stale :: bool
  files :: "(string \<times> stored) list"
  io_fails :: "string \<Rightarrow> bool"

text \<open>
  Modelled from the spec: the scan of the key directory is not part of the patch.
  Section 6: the storage can enumerate the records and locate them by address.
\<close>

definition scan :: "KeyStore \<Rightarrow> Account list" where
  "scan ks =
     map (\<lambda>(p, s). \<lparr>AccountAddress = Address (s_key s),
                     AccountURL = \<lparr>Scheme = KeyStoreScheme, Path = p\<rparr>\<rparr>) (files ks)"

text \<open>
  Modelled from the spec: \<^verbatim>\<open>cache.maybeReload\<close> is not part of the patch. Section 4.3:
  the cache is reloaded if stale.
\<close>

definition maybeReload :: "KeyStore \<Rightarrow> KeyStore" where
  "maybeReload ks = (if stale ks then ks\<lparr>cache := scan ks, stale := False\<rparr> else ks)"

text \<open>
  Modelled from the spec: \<^verbatim>\<open>cache.hasAddress\<close> is not part of the patch. Section 4.3:
  whether an account with the address is tracked by the cache; section 5: a read that may
  see a stale cache first reloads it.
\<close>

definition hasAddress :: "KeyStore \<Rightarrow> bytes \<Rightarrow> bool \<times> KeyStore" where
  "hasAddress ks addr =
     (let ks1 = maybeReload ks
      in (list_ex (\<lambda>a. AccountAddress a = addr) (cache ks1), ks1))"

text \<open>
  Modelled from the spec: \<^verbatim>\<open>cache.find\<close> is not part of the patch. Section 6: an
  account is located by its address; the lookup fails when the cache tracks no account
  or more than one account with that address (section 4.3: a cache-lookup failure).
\<close>

definition find_account :: "KeyStore \<Rightarrow> Account \<Rightarrow> error + Account" where
  "find_account ks a =
     (case filter (\<lambda>b. AccountAddress b = AccountAddress a) (cache ks) of
        [] \<Rightarrow> Inl ErrNoMatch
      | [b] \<Rightarrow> Inr b
      | _ \<Rightarrow> Inl ErrAmbiguousAddr)"

text \<open>
  Modelled from the spec: \<^verbatim>\<open>cache.add\<close> is not part of the patch. Section 4.3: the new
  account is registered in the cache.
\<close>

definition cache_add :: "KeyStore \<Rightarrow> Account \<Rightarrow> KeyStore" where
  "cache_add ks a = (if List.member (cache ks) a then ks else ks\<lparr>cache := cache ks @ [a]\<rparr>)"

text \<open>
  Modelled from the spec: \<^verbatim>\<open>storage.StoreKey\<close> is not part of the patch. Section 6:
  \<open>store(path, record, passphrase)\<close>; section 4.3: the record replaces the prior file;
  section 7: a storage error is reported, and then nothing is written.
\<close>

definition StoreKey :: "KeyStore \<Rightarrow> string \<Rightarrow> Key \<Rightarrow> string \<Rightarrow> error option \<times> KeyStore" where
  "StoreKey ks filename key auth =
     (if io_fails ks filename then (Some StorageError, ks)
      else (None, ks\<lparr>files := AList.update filename \<lparr>s_key = key, s_auth = auth\<rparr> (files ks)\<rparr>))"

text \<open>
  Modelled from the spec: \<^verbatim>\<open>storage.GetKey\<close> is not part of the patch. Section 4.3: the
  persisted record is decrypted with the passphrase; section 7: a missing file is a
  storage error, another passphrase an authentication error; section 4.4: a record read
  back has a derivation root, an absent one decrypts to the empty extended key.
\<close>

definition GetKey :: "KeyStore \<Rightarrow> string \<Rightarrow> string \<Rightarrow> error + Key" where
  "GetKey ks filename auth =
     (case map_of (files ks) filename of
        None \<Rightarrow> Inl StorageError
      | Some s \<Rightarrow>
          if s_auth s \<noteq> auth then Inl ErrDecrypt
          else Inr ((s_key s)\<lparr>ExtendedKey :=
                 Some (case ExtendedKey (s_key s) of None \<Rightarrow> ExtendedKey_zero | Some k \<Rightarrow> k)\<rparr>))"

text \<open>
  Modelled from the spec: \<^verbatim>\<open>getDecryptedKey\<close> is not part of the patch. Section 4.3: the
  persisted record is located by address and decrypted; it returns the account found,
  the key record, or the error.
\<close>

definition getDecryptedKey ::
  "KeyStore \<Rightarrow> Account \<Rightarrow> string \<Rightarrow> (error + Account \<times> Key) \<times> KeyStore" where
  "getDecryptedKey ks a auth =
     (let ks1 = maybeReload ks
      in case find_account ks1 a of
           Inl e \<Rightarrow> (Inl e, ks1)
         | Inr a' \<Rightarrow>
             (case GetKey ks1 (Path (AccountURL a')) auth of
                Inl e \<Rightarrow> (Inl e, ks1)
              | Inr key \<Rightarrow> (Inr (a', key), ks1)))"

text \<open>
  Modelled from the spec: the middle of \<^verbatim>\<open>importKey\<close> lies between two hunks of the
  patch, which show its first statements (the account with a fresh file name, the call
  of \<^verbatim>\<open>StoreKey\<close>) and its last (\<^verbatim>\<open>return a, nil\<close>). Section 4.3: a storage error is
  returned; otherwise the new account is registered in the cache and returned.
\<close>

definition importKey ::
  "env \<Rightarrow> KeyStore \<Rightarrow> nat \<Rightarrow> Key \<Rightarrow> string \<Rightarrow> Account \<times> error option \<times> KeyStore" where
  "importKey E ks now key passphrase =
     (let a = \<lparr>AccountAddress = Address key,
               AccountURL = \<lparr>Scheme = KeyStoreScheme,
                             Path = JoinPath E (keyFileName E now (Address key))\<rparr>\<rparr>
      in case StoreKey ks (Path (AccountURL a)) key passphrase of
           (Some err, ks1) \<Rightarrow> (Account_zero, Some err, ks1)
         | (None, ks1) \<Rightarrow> (a, None, cache_add ks1 a))"

text \<open>
  \<^verbatim>\<open>ImportExtendedKey\<close> of keystore.go. Besides the account, the error and the key store
  it returns the derived key object as it is left in memory when the function returns:
  that is where the calls of \<^verbatim>\<open>zeroKey\<close> show.
\<close>

definition ImportExtendedKey ::
  "env \<Rightarrow> KeyStore \<Rightarrow> (nat \<Rightarrow> byte) \<Rightarrow> nat \<Rightarrow> ExtendedKey \<Rightarrow> string
     \<Rightarrow> Account \<times> error option \<times> KeyStore \<times> Key" where
  "ImportExtendedKey E ks rnd now extKey passphrase =
     (case newKeyFromExtendedKey E rnd extKey of
        (key, Some err) \<Rightarrow>
          (Account_zero, Some err, ks, key\<lparr>PrivateKey := zeroKey (PrivateKey key)\<rparr>)
      | (key, None) \<Rightarrow>
          (case hasAddress ks (Address key) of
             (True, ks1) \<Rightarrow>
               (let a = \<lparr>AccountAddress = Address key,
                         AccountURL = \<lparr>Scheme = [], Path = []\<rparr>\<rparr>;
                    ks2 = maybeReload ks1
                in case find_account ks2 a of
                     Inl err \<Rightarrow>
                       (Account_zero, Some err, ks2,
                        key\<lparr>PrivateKey := zeroKey (PrivateKey key)\<rparr>)
                   | Inr a' \<Rightarrow> (a', None, ks2, key))
           | (False, ks1) \<Rightarrow>
               (case importKey E ks1 now key passphrase of
                  (a, err, ks2) \<Rightarrow> (a, err, ks2, key))))"

text \<open>
  \<^verbatim>\<open>IncSubAccountIndex\<close> of keystore.go; \<^verbatim>\<open>key.SubAccountIndex++\<close> is an addition on
  \<^verbatim>\<open>uint32\<close>. The third component is the decrypted key object as it is left in memory.
\<close>

definition IncSubAccountIndex ::
  "KeyStore \<Rightarrow> Account \<Rightarrow> string \<Rightarrow> error option \<times> KeyStore \<times> Key option" where
  "IncSubAccountIndex ks a passphrase =
     (case getDecryptedKey ks a passphrase of
        (Inl err, ks1) \<Rightarrow> (Some err, ks1, None)
      | (Inr (a', key), ks1) \<Rightarrow>
          (let key' = key\<lparr>SubAccountIndex := SubAccountIndex key + 1\<rparr>
           in case StoreKey ks1 (Path (AccountURL a')) key' passphrase of
                (err, ks2) \<Rightarrow> (err, ks2, Some key')))"

text \<open>\<open>n\<close> calls of \<^verbatim>\<open>IncSubAccountIndex\<close>, one after the other, stopping at the first error.\<close>

fun IncSubAccountIndex_times ::
  "nat \<Rightarrow> KeyStore \<Rightarrow> Account \<Rightarrow> string \<Rightarrow> error option \<times> KeyStore" where
  "IncSubAccountIndex_times 0 ks a passphrase = (None, ks)"
| "IncSubAccountIndex_times (Suc n) ks a passphrase =
     (case IncSubAccountIndex ks a passphrase of
        (Some err, ks1, key) \<Rightarrow> (Some err, ks1)
      | (None, ks1, key) \<Rightarrow> IncSubAccountIndex_times n ks1 a passphrase)"

section \<open>Predicates and a test instance for the statements below\<close>

text \<open>
  The outcome of the comparison \<^verbatim>\<open>bytes.Equal(calculatedMAC, mac)\<close> in
  \<^verbatim>\<open>decryptExtendedKey\<close>, as a predicate of the blob and the passphrase: the MAC
  recomputed from the derived key and the stored ciphertext is the stored MAC.
\<close>

definition macMatches :: "env \<Rightarrow> cryptoJSON \<Rightarrow> string \<Rightarrow> bool" where
  "macMatches E cj auth =
     (case hex_DecodeString (MAC cj) of
        Inl e \<Rightarrow> False
      | Inr mac \<Rightarrow>
          (case hex_DecodeString (CipherText cj) of
             Inl e \<Rightarrow> False
           | Inr cipherText \<Rightarrow>
               (case getKDFKey E cj auth of
                  Inl e \<Rightarrow> False
                | Inr derivedKey \<Rightarrow>
                    (case slice derivedKey 16 32 of
                       Inl e \<Rightarrow> False
                     | Inr macKey \<Rightarrow> Keccak256 E [macKey, cipherText] = mac))))"

text \<open>The key bytes are all zero: what \<^verbatim>\<open>zeroKey\<close> leaves.\<close>

definition zeroed :: "ecdsa_PrivateKey \<Rightarrow> bool" where
  "zeroed k = (D k = replicate (length (D k)) 0)"

text \<open>
  A small instance of the library parameters, on which the statements are evaluated.
  Its key derivation is a sum of the bytes of the HMAC key block, each weighted by its
  position.
\<close>

definition test_env :: env where
  "test_env =
     \<lparr>version = 3,
      scryptR = 8,
      scrypt_ok = (\<lambda>N r p l. 1 < N),
      scrypt_stream =
        (\<lambda>key salt N r p l i.
           sum_list (map (\<lambda>(j, b). of_nat (j + 1) * b) (enumerate 0 key)) + of_nat i),
      sha256 = (\<lambda>b. replicate 31 0 @ [sum_list b]),
      keccak256 = (\<lambda>b. [sum_list b, of_nat (length b)]),
      aes_keystream = (\<lambda>key iv i. sum_list key + sum_list iv + of_nat i),
      ckd = (\<lambda>k i. Inr (KeyData k @ [ucast i], ChainCode k, take 1 (KeyData k))),
      ToECDSA = (\<lambda>k. \<lparr>PublicKey = KeyData k, D = map unat (KeyData k)\<rparr>),
      ExtString = (\<lambda>k. if k = ExtendedKey_zero then ''Zeroed extended key''
                        else ''xprv'' @ hex_EncodeToString (KeyData k)),
      parseExt = (\<lambda>s. if take 4 s = ''xprv'' then
                         (case hex_DecodeString (drop 4 s) of
                            Inl e \<Rightarrow> Inl e
                          | Inr d \<Rightarrow> Inr \<lparr>KeyData = d, ChainCode = [], Depth = 1,
                                          FingerPrint = [], ChildNumber = 0\<rparr>)
                       else Inl (LibraryError ''invalid extended key'')),
      EmptyExtendedKeyString = ''Zeroed extended key'',
      CoinTypeETH = 60,
      PubkeyToAddress = (\<lambda>pub. take 20 (pub @ replicate 20 0)),
      ToECDSAUnsafe = (\<lambda>d. \<lparr>PublicKey = d, D = map unat d\<rparr>),
      uuid_NewRandom = (\<lambda>rnd. map rnd [0..<16]),
      json_Unmarshal_map =
        (\<lambda>b. if b = bytes_of_string ''legacy'' then Inr [''version'' \<mapsto> IString ''1'']
              else Inr [''version'' \<mapsto> IFloat64 3, ''subaccountindex'' \<mapsto> IFloat64 2]),
      json_Unmarshal_V1 =
        (\<lambda>b. Inr \<lparr>V1_Address = ''01'', V1_Crypto = cryptoJSON_zero, V1_Id = ''07'',
                   V1_Version = ''1''\<rparr>),
      json_Unmarshal_V3 =
        (\<lambda>b. Inr \<lparr>V3_Address = ''01'', V3_Crypto = cryptoJSON_zero, V3_Id = ''07'',
                   V3_Version = 3, V3_ExtendedKey = cryptoJSON_zero,
                   V3_SubAccountIndex = 2\<rparr>),
      decryptKeyV1 = (\<lambda>k auth. if auth = ''pw'' then Inr ([1, 2, 3], [7]) else Inl ErrDecrypt),
      decryptKeyV3 = (\<lambda>k auth. if auth = ''pw'' then Inr ([1, 2, 3], [7]) else Inl ErrDecrypt),
      keyFileName = (\<lambda>now addr. ''UTC--'' @ hex_EncodeToString addr),
      JoinPath = (\<lambda>f. ''/keystore/'' @ f)\<rparr>"

definition test_rnd :: "nat \<Rightarrow> byte" where
  "test_rnd i = of_nat (7 * i + 3)"

definition test_key :: ExtendedKey where
  "test_key =
     \<lparr>KeyData = [1, 2, 3], ChainCode = [4], Depth = 1, FingerPrint = [],
      ChildNumber = 0\<rparr>"

definition test_master :: ExtendedKey where
  "test_master =
     \<lparr>KeyData = [9], ChainCode = [4], Depth = 0, FingerPrint = [], ChildNumber = 0\<rparr>"

text \<open>The record \<^verbatim>\<open>EncryptKey\<close> assembles around a blob: the supported version.\<close>

definition test_record :: "cryptoJSON \<Rightarrow> encryptedKeyJSONV3" where
  "test_record blob =
     \<lparr>V3_Address = ''01'', V3_Crypto = cryptoJSON_zero, V3_Id = ''07'',
      V3_Version = 3, V3_ExtendedKey = blob, V3_SubAccountIndex = 0\<rparr>"

text \<open>The blob the test instance produces for \<open>test_key\<close> under the passphrase \<open>ab\<close>.\<close>

definition test_blob :: cryptoJSON where
  "test_blob =
     \<lparr>Cipher = ''aes-128-ctr'',
      CipherText = ''3831303574747675787a'',
      CipherParams = \<lparr>IV = ''e3eaf1f8ff060d141b222930373e454c''\<rparr>,
      KDF = ''scrypt'',
      KDFParams =
        [''n'' \<mapsto> IInt 2, ''r'' \<mapsto> IInt 8, ''p'' \<mapsto> IInt 1, ''dklen'' \<mapsto> IInt 32,
         ''salt'' \<mapsto>
           IString ''030a11181f262d343b424950575e656c737a81888f969da4abb2b9c0c7ced5dc''],
      MAC = ''5b1a''\<rparr>"

text \<open>Key stores for the test instance: one persisted record, tracked by the cache.\<close>

definition test_account :: Account where
  "test_account =
     \<lparr>AccountAddress = [1, 2, 3] @ replicate 17 0,
      AccountURL = \<lparr>Scheme = ''keystore'', Path = ''/keystore/a''\<rparr>\<rparr>"

definition test_stored_key :: "32 word \<Rightarrow> Key" where
  "test_stored_key i =
     \<lparr>Id = [7], Address = [1, 2, 3] @ replicate 17 0,
      PrivateKey = Some \<lparr>PublicKey = [1, 2, 3], D = [1, 2, 3]\<rparr>,
      ExtendedKey = Some test_key, SubAccountIndex = i\<rparr>"

definition test_ks :: "32 word \<Rightarrow> KeyStore" where
  "test_ks i =
     \<lparr>cache = [test_account], stale = False,
      files = [(''/keystore/a'', \<lparr>s_key = test_stored_key i, s_auth = ''pw''\<rparr>)],
      io_fails = (\<lambda>p. False)\<rparr>"

text \<open>A cache that tracks two files for one address, and an empty key store.\<close>

definition test_ks_ambiguous :: KeyStore where
  "test_ks_ambiguous =
     \<lparr>cache =
        [\<lparr>AccountAddress = [1, 2, 3] @ replicate 17 0,
          AccountURL = \<lparr>Scheme = ''keystore'', Path = ''/keystore/a''\<rparr>\<rparr>,
         \<lparr>AccountAddress = [1, 2, 3] @ replicate 17 0,
          AccountURL = \<lparr>Scheme = ''keystore'', Path = ''/keystore/b''\<rparr>\<rparr>],
      stale = False, files = [], io_fails = (\<lambda>p. False)\<rparr>"

definition test_ks_empty :: KeyStore where
  "test_ks_empty = \<lparr>cache = [], stale = False, files = [], io_fails = (\<lambda>p. False)\<rparr>"

text \<open>The key record the test instance derives from \<open>test_key\<close>.\<close>

definition test_derived :: Key where
  "test_derived =
     \<lparr>Id = [3, 10, 17, 24, 31, 38, 45, 52, 59, 66, 73, 80, 87, 94, 101, 108],
      Address = [1, 2, 3] @ replicate 17 0,
      PrivateKey = Some \<lparr>PublicKey = [1, 2, 3], D = [1, 2, 3]\<rparr>,
      ExtendedKey = Some test_key, SubAccountIndex = 0\<rparr>"

section \<open>Facts about the encoding and the cipher\<close>

lemma fromHexChar_hextable:
  assumes "n < 16"
  shows "fromHexChar (hextable ! n) = Some (word_of_nat n)"
proof -
  from assms have "n \<in> set [0..<16]" by simp
  then show ?thesis
    unfolding hextable_def fromHexChar_def
    by (simp add: upt_rec) (elim disjE; simp)
qed

lemma byte_15_mask: "(15::byte) = mask 4"
  by (simp add: mask_eq_exp_minus_1)

lemma byte_nibbles: "push_bit 4 (drop_bit 4 v) OR (v AND 15) = (v::byte)"
  unfolding byte_15_mask by (rule bit_word_eqI) (auto simp add: bit_simps)

lemma high_nibble_less: "unat (drop_bit 4 (v::byte)) < 16"
proof -
  have "unat v < 2 ^ 8" using unsigned_less [of v, where ?'a = nat] by simp
  then have "unat v div 16 < 16" by simp
  then show ?thesis by (simp add: drop_bit_eq_div unat_div)
qed

lemma low_nibble_less: "unat ((v::byte) AND 15) < 16"
proof -
  have "unat (take_bit 4 v) = take_bit 4 (unat v)" by (simp add: unsigned_take_bit_eq)
  also have "\<dots> < 16" by (simp add: take_bit_eq_mod)
  finally show ?thesis by (simp add: byte_15_mask take_bit_eq_mask)
qed

lemma hex_roundtrip: "hex_DecodeString (hex_EncodeToString b) = Inr b"
proof (induction b)
  case Nil
  show ?case by (simp add: hex_EncodeToString_def)
next
  case (Cons v b)
  have h: "fromHexChar (hextable ! unat (drop_bit 4 v)) = Some (drop_bit 4 v)"
    using fromHexChar_hextable [OF high_nibble_less [of v]] by simp
  have l: "fromHexChar (hextable ! unat (v AND 15)) = Some (v AND 15)"
    using fromHexChar_hextable [OF low_nibble_less [of v]] by simp
  from Cons show ?case
    by (simp add: hex_EncodeToString_def h l byte_nibbles)
qed

lemma hex_EncodeToString_Nil_iff: "hex_EncodeToString b = [] \<longleftrightarrow> b = []"
  by (cases b) (simp_all add: hex_EncodeToString_def)

lemma string_of_bytes_of_string: "string_of_bytes (bytes_of_string s) = s"
  by (induction s) (simp_all add: string_of_bytes_def bytes_of_string_def unat_of_nat)

lemma length_aesCTRXOR: "aesCTRXOR E k t iv = Inr c \<Longrightarrow> length c = length t"
  by (auto simp: aesCTRXOR_def split: if_splits)

lemma aesCTRXOR_involution:
  assumes "aesCTRXOR E k t iv = Inr c"
  shows "aesCTRXOR E k c iv = Inr t"
proof -
  from assms have ok: "\<not> (length k \<noteq> 16 \<and> length k \<noteq> 24 \<and> length k \<noteq> 32)" "length iv = 16"
    and c: "c = map (\<lambda>(i, b). b XOR aes_keystream E k iv i) (enumerate 0 t)"
    by (auto simp: aesCTRXOR_def split: if_splits)
  have "map (\<lambda>(i, b). b XOR aes_keystream E k iv i) (enumerate 0 c) = t"
    unfolding c
    by (rule nth_equalityI) (simp_all add: nth_enumerate_eq xor.assoc)
  with ok show ?thesis by (simp add: aesCTRXOR_def)
qed

lemma scrypt_Key_length: "scrypt_Key E pw salt N r p l = Inr dk \<Longrightarrow> length dk = nat l"
  by (auto simp: scrypt_Key_def split: if_splits)

lemma scrypt_Key_password_independent:
  "scrypt_Key E pw salt N r p l = Inr dk \<Longrightarrow> \<exists>dk'. scrypt_Key E pw' salt N r p l = Inr dk'"
  by (auto simp: scrypt_Key_def split: if_splits)

section \<open>Facts about encryption and decryption\<close>

lemma EncryptExtendedKey_Some:
  fixes rnd :: "nat \<Rightarrow> byte"
  defines "salt \<equiv> fst (GetEntropyCSPRNG 32 rnd)"
    and "iv \<equiv> fst (GetEntropyCSPRNG 16 (snd (GetEntropyCSPRNG 32 rnd)))"
  assumes "EncryptExtendedKey E rnd (Some k) auth N p = Inr blob"
  shows "\<exists>dk ct.
    scrypt_Key E (bytes_of_string auth) salt N (scryptR E) p 32 = Inr dk \<and>
    aesCTRXOR E (take 16 dk) (bytes_of_string (ExtString E k)) iv = Inr ct \<and>
    blob = \<lparr>Cipher = ''aes-128-ctr'', CipherText = hex_EncodeToString ct,
             CipherParams = \<lparr>IV = hex_EncodeToString iv\<rparr>, KDF = ''scrypt'',
             KDFParams = [''n'' \<mapsto> IInt N, ''r'' \<mapsto> IInt (scryptR E), ''p'' \<mapsto> IInt p,
                          ''dklen'' \<mapsto> IInt 32, ''salt'' \<mapsto> IString (hex_EncodeToString salt)],
             MAC = hex_EncodeToString (Keccak256 E [take 16 (drop 16 dk), ct])\<rparr>"
  using assms(3)
  unfolding EncryptExtendedKey_def GetEntropyCSPRNG_def scryptDKLen_def salt_def iv_def
  by (auto simp: slice_def Let_def split: sum.splits if_splits dest: scrypt_Key_length)

lemma EncryptExtendedKey_succeeds:
  assumes "scrypt_ok E N (scryptR E) p 32"
  shows "\<exists>blob. EncryptExtendedKey E rnd (Some k) auth N p = Inr blob"
  using assms
  unfolding EncryptExtendedKey_def GetEntropyCSPRNG_def scryptDKLen_def scrypt_Key_def
    aesCTRXOR_def slice_def
  by (simp add: Let_def)

lemma EncryptExtendedKey_Some_not_zero:
  "EncryptExtendedKey E rnd (Some k) auth N p \<noteq> Inr cryptoJSON_zero"
proof
  assume "EncryptExtendedKey E rnd (Some k) auth N p = Inr cryptoJSON_zero"
  from EncryptExtendedKey_Some [OF this] show False
    by (elim exE conjE) (drule arg_cong [where f = Cipher], simp add: cryptoJSON_zero_def)
qed

lemma getKDFKey_scrypt:
  assumes "KDF cj = ''scrypt''"
    and "KDFParams cj = [''n'' \<mapsto> IInt N, ''r'' \<mapsto> IInt r, ''p'' \<mapsto> IInt p,
                          ''dklen'' \<mapsto> IInt l, ''salt'' \<mapsto> IString (hex_EncodeToString salt)]"
  shows "getKDFKey E cj auth = scrypt_Key E (bytes_of_string auth) salt N r p l"
  using assms by (simp add: getKDFKey_def ensureInt_def hex_roundtrip)

lemma decryptExtendedKey_blob:
  assumes blob: "V3_ExtendedKey kp =
            \<lparr>Cipher = ''aes-128-ctr'', CipherText = hex_EncodeToString ct,
             CipherParams = \<lparr>IV = hex_EncodeToString iv\<rparr>, KDF = ''scrypt'',
             KDFParams = [''n'' \<mapsto> IInt N, ''r'' \<mapsto> IInt r, ''p'' \<mapsto> IInt p,
                          ''dklen'' \<mapsto> IInt 32, ''salt'' \<mapsto> IString (hex_EncodeToString salt)],
             MAC = hex_EncodeToString mac\<rparr>"
    and ver: "V3_Version kp = version E"
    and ct: "ct \<noteq> []"
    and dk: "scrypt_Key E (bytes_of_string auth) salt N r p 32 = Inr dk"
  shows "decryptExtendedKey E kp auth =
           (if Keccak256 E [take 16 (drop 16 dk), ct] \<noteq> mac then Inl ErrDecrypt
            else aesCTRXOR E (take 16 dk) ct iv)"
proof -
  have kdf: "getKDFKey E (V3_ExtendedKey kp) auth = Inr dk"
    using getKDFKey_scrypt [of "V3_ExtendedKey kp" N r p 32 salt E auth] dk
    by (simp add: blob)
  have len: "length dk = 32" using scrypt_Key_length [OF dk] by simp
  show ?thesis
    unfolding decryptExtendedKey_def kdf
    by (simp add: blob ver ct hex_roundtrip hex_EncodeToString_Nil_iff slice_def len)
qed

lemma decrypt_encrypt_roundtrip:
  assumes enc: "EncryptExtendedKey E rnd (Some k) auth N p = Inr blob"
    and ne: "ExtString E k \<noteq> []"
    and kp: "V3_ExtendedKey kp = blob" "V3_Version kp = version E"
  shows "decryptExtendedKey E kp auth = Inr (bytes_of_string (ExtString E k))"
proof -
  from EncryptExtendedKey_Some [OF enc] obtain dk ct where
    dk: "scrypt_Key E (bytes_of_string auth) (fst (GetEntropyCSPRNG 32 rnd)) N (scryptR E) p 32 = Inr dk"
    and ct: "aesCTRXOR E (take 16 dk) (bytes_of_string (ExtString E k))
               (fst (GetEntropyCSPRNG 16 (snd (GetEntropyCSPRNG 32 rnd)))) = Inr ct"
    and blob: "blob = \<lparr>Cipher = ''aes-128-ctr'', CipherText = hex_EncodeToString ct,
             CipherParams = \<lparr>IV = hex_EncodeToString (fst (GetEntropyCSPRNG 16 (snd (GetEntropyCSPRNG 32 rnd))))\<rparr>,
             KDF = ''scrypt'',
             KDFParams = [''n'' \<mapsto> IInt N, ''r'' \<mapsto> IInt (scryptR E), ''p'' \<mapsto> IInt p,
                          ''dklen'' \<mapsto> IInt 32,
                          ''salt'' \<mapsto> IString (hex_EncodeToString (fst (GetEntropyCSPRNG 32 rnd)))],
             MAC = hex_EncodeToString (Keccak256 E [take 16 (drop 16 dk), ct])\<rparr>"
    by blast
  have "length ct = length (bytes_of_string (ExtString E k))"
    by (rule length_aesCTRXOR [OF ct])
  with ne have ct_ne: "ct \<noteq> []" by (auto simp: bytes_of_string_def)
  have "decryptExtendedKey E kp auth =
          (if Keccak256 E [take 16 (drop 16 dk), ct] \<noteq> Keccak256 E [take 16 (drop 16 dk), ct]
           then Inl ErrDecrypt
           else aesCTRXOR E (take 16 dk) ct (fst (GetEntropyCSPRNG 16 (snd (GetEntropyCSPRNG 32 rnd)))))"
    by (rule decryptExtendedKey_blob [OF _ kp(2) ct_ne dk]) (simp add: kp(1) blob)
  then show ?thesis by (simp add: aesCTRXOR_involution [OF ct])
qed

lemma decryptExtendedKey_no_ciphertext:
  "CipherText (V3_ExtendedKey kp) = [] \<Longrightarrow>
     decryptExtendedKey E kp auth = Inr (bytes_of_string (EmptyExtendedKeyString E))"
  by (simp add: decryptExtendedKey_def)

lemma decryptExtendedKey_checked:
  assumes "CipherText (V3_ExtendedKey kp) \<noteq> []"
    and "V3_Version kp = version E"
    and "Cipher (V3_ExtendedKey kp) = ''aes-128-ctr''"
    and "hex_DecodeString (MAC (V3_ExtendedKey kp)) = Inr mac"
    and "hex_DecodeString (IV (CipherParams (V3_ExtendedKey kp))) = Inr iv"
    and "hex_DecodeString (CipherText (V3_ExtendedKey kp)) = Inr ct"
    and "getKDFKey E (V3_ExtendedKey kp) auth = Inr dk"
    and "32 \<le> length dk"
  shows "decryptExtendedKey E kp auth =
           (if macMatches E (V3_ExtendedKey kp) auth then aesCTRXOR E (take 16 dk) ct iv
            else Inl ErrDecrypt)"
  using assms by (simp add: decryptExtendedKey_def macMatches_def slice_def)

lemma scrypt_Key_hmac_cong:
  assumes "hmac_key_block E pw' = hmac_key_block E pw"
  shows "scrypt_Key E pw' salt N r p l = scrypt_Key E pw salt N r p l"
  using assms by (simp add: scrypt_Key_def)

lemma getKDFKey_hmac_cong:
  assumes "hmac_key_block E (bytes_of_string P') = hmac_key_block E (bytes_of_string P)"
  shows "getKDFKey E cj P' = getKDFKey E cj P"
  unfolding getKDFKey_def Let_def scrypt_Key_hmac_cong [OF assms] ..

lemma decryptExtendedKey_hmac_cong:
  assumes "hmac_key_block E (bytes_of_string P') = hmac_key_block E (bytes_of_string P)"
  shows "decryptExtendedKey E kp P' = decryptExtendedKey E kp P"
  unfolding decryptExtendedKey_def getKDFKey_hmac_cong [OF assms] ..

lemma hmac_key_block_NUL:
  assumes "length key < 64"
  shows "hmac_key_block E (key @ [0]) = hmac_key_block E key"
proof -
  from assms have "64 - length key = Suc (63 - length key)" by simp
  with assms show ?thesis by (simp add: hmac_key_block_def Let_def replicate_append_same)
qed

lemma bytes_of_string_NUL: "bytes_of_string (s @ [CHR 0x00]) = bytes_of_string s @ [0]"
  by (simp add: bytes_of_string_def)

text \<open>A passphrase followed by a NUL byte opens what the passphrase opens.\<close>

lemma decryptExtendedKey_NUL:
  assumes "length P < 64"
  shows "decryptExtendedKey E kp (P @ [CHR 0x00]) = decryptExtendedKey E kp P"
proof (rule decryptExtendedKey_hmac_cong)
  from assms have "length (bytes_of_string P) < 64" by (simp add: bytes_of_string_def)
  from hmac_key_block_NUL [OF this]
  show "hmac_key_block E (bytes_of_string (P @ [CHR 0x00])) = hmac_key_block E (bytes_of_string P)"
    by (simp add: bytes_of_string_NUL)
qed

lemma getKDFKey_encrypted:
  assumes "EncryptExtendedKey E rnd (Some k) auth N p = Inr blob"
  shows "\<exists>dk. getKDFKey E (blob\<lparr>CipherText := c, MAC := m, CipherParams := cp\<rparr>) auth' = Inr dk \<and>
           length dk = 32"
proof -
  from EncryptExtendedKey_Some [OF assms] obtain dk ct where
    dk: "scrypt_Key E (bytes_of_string auth) (fst (GetEntropyCSPRNG 32 rnd)) N (scryptR E) p 32 = Inr dk"
    and blob: "blob = \<lparr>Cipher = ''aes-128-ctr'', CipherText = hex_EncodeToString ct,
             CipherParams = \<lparr>IV = hex_EncodeToString (fst (GetEntropyCSPRNG 16 (snd (GetEntropyCSPRNG 32 rnd))))\<rparr>,
             KDF = ''scrypt'',
             KDFParams = [''n'' \<mapsto> IInt N, ''r'' \<mapsto> IInt (scryptR E), ''p'' \<mapsto> IInt p,
                          ''dklen'' \<mapsto> IInt 32,
                          ''salt'' \<mapsto> IString (hex_EncodeToString (fst (GetEntropyCSPRNG 32 rnd)))],
             MAC = hex_EncodeToString (Keccak256 E [take 16 (drop 16 dk), ct])\<rparr>"
    by blast
  from scrypt_Key_password_independent [OF dk] obtain dk' where
    dk': "scrypt_Key E (bytes_of_string auth') (fst (GetEntropyCSPRNG 32 rnd)) N (scryptR E) p 32 = Inr dk'"
    by blast
  have "getKDFKey E (blob\<lparr>CipherText := c, MAC := m, CipherParams := cp\<rparr>) auth' =
          scrypt_Key E (bytes_of_string auth') (fst (GetEntropyCSPRNG 32 rnd)) N (scryptR E) p 32"
    by (rule getKDFKey_scrypt) (simp_all add: blob)
  with dk' scrypt_Key_length [OF dk'] show ?thesis by simp
qed

text \<open>
  Decryption of a produced blob whose ciphertext, MAC and IV may have been replaced, under
  any passphrase: the comparison of the MACs decides, and with equal MACs the cipher runs.
\<close>

lemma decryptExtendedKey_variant:
  assumes enc: "EncryptExtendedKey E rnd (Some k) auth N p = Inr blob"
    and kp: "V3_ExtendedKey kp =
        blob\<lparr>CipherText := hex_EncodeToString ct', MAC := hex_EncodeToString mac',
             CipherParams := \<lparr>IV = hex_EncodeToString iv'\<rparr>\<rparr>"
      "V3_Version kp = version E"
    and ct': "ct' \<noteq> []"
    and iv': "length iv' = 16"
  shows "\<exists>pt. decryptExtendedKey E kp auth' =
           (if macMatches E (V3_ExtendedKey kp) auth' then Inr pt else Inl ErrDecrypt)"
proof -
  from getKDFKey_encrypted [OF enc] obtain dk where
    dk: "getKDFKey E (V3_ExtendedKey kp) auth' = Inr dk" and len: "length dk = 32"
    unfolding kp(1) by blast
  from EncryptExtendedKey_Some [OF enc] have c: "Cipher blob = ''aes-128-ctr''"
    by auto
  have "decryptExtendedKey E kp auth' =
          (if macMatches E (V3_ExtendedKey kp) auth' then aesCTRXOR E (take 16 dk) ct' iv'
           else Inl ErrDecrypt)"
    by (rule decryptExtendedKey_checked [OF _ kp(2) _ _ _ _ dk])
       (simp_all add: kp(1) ct' hex_EncodeToString_Nil_iff hex_roundtrip c len)
  moreover have "\<exists>pt. aesCTRXOR E (take 16 dk) ct' iv' = Inr pt"
    by (simp add: aesCTRXOR_def len iv')
  ultimately show ?thesis by auto
qed

lemma encrypted_blob_shape:
  assumes enc: "EncryptExtendedKey E rnd (Some k) auth N p = Inr blob"
    and ne: "ExtString E k \<noteq> []"
  shows "\<exists>ct mac iv. ct \<noteq> [] \<and> length iv = 16 \<and>
           blob = blob\<lparr>CipherText := hex_EncodeToString ct, MAC := hex_EncodeToString mac,
                       CipherParams := \<lparr>IV = hex_EncodeToString iv\<rparr>\<rparr>"
proof -
  from EncryptExtendedKey_Some [OF enc] obtain dk ct where
    ct: "aesCTRXOR E (take 16 dk) (bytes_of_string (ExtString E k))
               (fst (GetEntropyCSPRNG 16 (snd (GetEntropyCSPRNG 32 rnd)))) = Inr ct"
    and f: "CipherText blob = hex_EncodeToString ct"
      "MAC blob = hex_EncodeToString (Keccak256 E [take 16 (drop 16 dk), ct])"
      "CipherParams blob =
         \<lparr>IV = hex_EncodeToString (fst (GetEntropyCSPRNG 16 (snd (GetEntropyCSPRNG 32 rnd))))\<rparr>"
    by auto
  from length_aesCTRXOR [OF ct] ne have "ct \<noteq> []" by (auto simp: bytes_of_string_def)
  moreover have "length (fst (GetEntropyCSPRNG 16 (snd (GetEntropyCSPRNG 32 rnd)))) = 16"
    by (simp add: GetEntropyCSPRNG_def)
  moreover from f have "blob = blob\<lparr>CipherText := hex_EncodeToString ct,
      MAC := hex_EncodeToString (Keccak256 E [take 16 (drop 16 dk), ct]),
      CipherParams :=
        \<lparr>IV = hex_EncodeToString (fst (GetEntropyCSPRNG 16 (snd (GetEntropyCSPRNG 32 rnd))))\<rparr>\<rparr>"
    by simp
  ultimately show ?thesis by blast
qed

text \<open>The passphrase of the encryption matches the MAC, whatever the IV of the blob.\<close>

lemma macMatches_encrypted:
  assumes enc: "EncryptExtendedKey E rnd (Some k) auth N p = Inr blob"
  shows "macMatches E (blob\<lparr>CipherParams := cp\<rparr>) auth"
proof -
  from EncryptExtendedKey_Some [OF enc] obtain dk ct where
    dk: "scrypt_Key E (bytes_of_string auth) (fst (GetEntropyCSPRNG 32 rnd)) N (scryptR E) p 32 = Inr dk"
    and blob: "blob = \<lparr>Cipher = ''aes-128-ctr'', CipherText = hex_EncodeToString ct,
             CipherParams = \<lparr>IV = hex_EncodeToString (fst (GetEntropyCSPRNG 16 (snd (GetEntropyCSPRNG 32 rnd))))\<rparr>,
             KDF = ''scrypt'',
             KDFParams = [''n'' \<mapsto> IInt N, ''r'' \<mapsto> IInt (scryptR E), ''p'' \<mapsto> IInt p,
                          ''dklen'' \<mapsto> IInt 32,
                          ''salt'' \<mapsto> IString (hex_EncodeToString (fst (GetEntropyCSPRNG 32 rnd)))],
             MAC = hex_EncodeToString (Keccak256 E [take 16 (drop 16 dk), ct])\<rparr>"
    by blast
  have "getKDFKey E (blob\<lparr>CipherParams := cp\<rparr>) auth =
          scrypt_Key E (bytes_of_string auth) (fst (GetEntropyCSPRNG 32 rnd)) N (scryptR E) p 32"
    by (rule getKDFKey_scrypt) (simp_all add: blob)
  with dk scrypt_Key_length [OF dk] show ?thesis
    by (simp add: macMatches_def blob hex_roundtrip slice_def)
qed

section \<open>Facts about the derivation and the key store\<close>

lemma Child_ChildNumber: "Child E k i = Inr c \<Longrightarrow> ChildNumber c = i"
  by (auto simp: Child_def split: sum.splits)

lemma BIP44Child_ChildNumber: "BIP44Child E k coinType i = Inr c \<Longrightarrow> ChildNumber c = i"
  by (auto simp: BIP44Child_def split: sum.splits dest: Child_ChildNumber)

lemma newKeyFromExtendedKey_rnd:
  assumes "newKeyFromExtendedKey E rnd K = (key, None)"
  shows "newKeyFromExtendedKey E rnd' K = (key\<lparr>Id := uuid_NewRandom E rnd'\<rparr>, None)"
  using assms
  by (auto simp: newKeyFromExtendedKey_def Let_def split: sum.splits if_splits)

lemma newKeyFromExtendedKey_error:
  assumes "newKeyFromExtendedKey E rnd K = (key, Some e)"
  shows "key = Key_zero"
  using assms
  by (auto simp: newKeyFromExtendedKey_def Let_def split: sum.splits if_splits)

lemma files_maybeReload: "files (maybeReload ks) = files ks"
  by (simp add: maybeReload_def)

lemma io_fails_maybeReload: "io_fails (maybeReload ks) = io_fails ks"
  by (simp add: maybeReload_def)

lemma stale_maybeReload: "\<not> stale (maybeReload ks)"
  by (simp add: maybeReload_def)

lemma maybeReload_not_stale: "\<not> stale ks \<Longrightarrow> maybeReload ks = ks"
  by (simp add: maybeReload_def)

lemma snd_getDecryptedKey: "snd (getDecryptedKey ks a P) = maybeReload ks"
  by (simp add: getDecryptedKey_def Let_def split: sum.splits)

lemma getDecryptedKey_Inr:
  assumes "getDecryptedKey ks a P = (Inr (a', key), ks1)"
  shows "ks1 = maybeReload ks" and "find_account (maybeReload ks) a = Inr a'"
    and "GetKey (maybeReload ks) (Path (AccountURL a')) P = Inr key"
  using assms by (auto simp: getDecryptedKey_def Let_def split: sum.splits)

lemma GetKey_ExtendedKey: "GetKey ks f P = Inr key \<Longrightarrow> \<exists>k. ExtendedKey key = Some k"
  by (auto simp: GetKey_def split: option.splits if_splits)

lemma IncSubAccountIndex_step:
  assumes g: "getDecryptedKey ks a P = (Inr (a', key), ks1)"
    and io: "\<not> io_fails ks (Path (AccountURL a'))"
  shows "\<exists>ks2. IncSubAccountIndex ks a P =
                 (None, ks2, Some (key\<lparr>SubAccountIndex := SubAccountIndex key + 1\<rparr>)) \<and>
               getDecryptedKey ks2 a P =
                 (Inr (a', key\<lparr>SubAccountIndex := SubAccountIndex key + 1\<rparr>), ks2) \<and>
               io_fails ks2 = io_fails ks \<and>
               files ks2 =
                 AList.update (Path (AccountURL a'))
                   \<lparr>s_key = key\<lparr>SubAccountIndex := SubAccountIndex key + 1\<rparr>, s_auth = P\<rparr>
                   (files ks)"
proof -
  let ?key' = "key\<lparr>SubAccountIndex := SubAccountIndex key + 1\<rparr>"
  let ?p = "Path (AccountURL a')"
  let ?ks1 = "maybeReload ks"
  let ?ks2 = "?ks1\<lparr>files := AList.update ?p \<lparr>s_key = ?key', s_auth = P\<rparr> (files ?ks1)\<rparr>"
  note g' = getDecryptedKey_Inr [OF g]
  from io have st: "StoreKey ?ks1 ?p ?key' P = (None, ?ks2)"
    by (simp add: StoreKey_def io_fails_maybeReload)
  have inc: "IncSubAccountIndex ks a P = (None, ?ks2, Some ?key')"
    using g st by (simp add: IncSubAccountIndex_def g'(1) Let_def)
  have ns: "\<not> stale ?ks2" by (simp add: stale_maybeReload)
  have f: "find_account ?ks2 a = Inr a'" using g'(2) by (simp add: find_account_def)
  from GetKey_ExtendedKey [OF g'(3)] obtain k where k: "ExtendedKey key = Some k" by blast
  have gk: "GetKey ?ks2 ?p P = Inr ?key'"
    by (simp add: GetKey_def update_conv' k)
  have "getDecryptedKey ?ks2 a P = (Inr (a', ?key'), ?ks2)"
    unfolding getDecryptedKey_def maybeReload_not_stale [OF ns] by (simp add: f gk)
  with inc show ?thesis
    by (intro exI [of _ ?ks2]) (simp add: io_fails_maybeReload files_maybeReload)
qed

lemma IncSubAccountIndex_times_counts:
  assumes "getDecryptedKey ks a P = (Inr (a', key), ks1)"
    and "\<not> io_fails ks (Path (AccountURL a'))"
  shows "\<exists>ksN. IncSubAccountIndex_times n ks a P = (None, ksN) \<and>
           fst (getDecryptedKey ksN a P) =
             Inr (a', key\<lparr>SubAccountIndex := SubAccountIndex key + of_nat n\<rparr>)"
  using assms
proof (induction n arbitrary: ks key ks1)
  case 0
  then show ?case by simp
next
  case (Suc n)
  from IncSubAccountIndex_step [OF Suc.prems] obtain ks2 where
    inc: "IncSubAccountIndex ks a P =
            (None, ks2, Some (key\<lparr>SubAccountIndex := SubAccountIndex key + 1\<rparr>))"
    and g2: "getDecryptedKey ks2 a P =
            (Inr (a', key\<lparr>SubAccountIndex := SubAccountIndex key + 1\<rparr>), ks2)"
    and io2: "io_fails ks2 = io_fails ks"
    by blast
  from Suc.prems(2) io2 have "\<not> io_fails ks2 (Path (AccountURL a'))" by simp
  from Suc.IH [OF g2 this] inc show ?case by (simp add: add.assoc)
qed

lemma unat_uint32_plus: "unat ((x::32 word) + of_nat n) = (unat x + n) mod 2 ^ 32"
  by (simp add: unat_word_ariths unat_of_nat mod_add_right_eq)

lemma hasAddress_snd: "snd (hasAddress ks addr) = maybeReload ks"
  by (simp add: hasAddress_def Let_def)

lemma ImportExtendedKey_tracked:
  assumes nk: "newKeyFromExtendedKey E rnd K = (key, None)"
    and h: "hasAddress ks (Address key) = (True, ks1)"
  shows "ImportExtendedKey E ks rnd now K P =
           (case find_account (maybeReload ks1)
                   \<lparr>AccountAddress = Address key, AccountURL = \<lparr>Scheme = [], Path = []\<rparr>\<rparr> of
              Inl err \<Rightarrow> (Account_zero, Some err, maybeReload ks1,
                           key\<lparr>PrivateKey := zeroKey (PrivateKey key)\<rparr>)
            | Inr a' \<Rightarrow> (a', None, maybeReload ks1, key))"
    and "files (maybeReload ks1) = files ks"
proof -
  show "ImportExtendedKey E ks rnd now K P =
           (case find_account (maybeReload ks1)
                   \<lparr>AccountAddress = Address key, AccountURL = \<lparr>Scheme = [], Path = []\<rparr>\<rparr> of
              Inl err \<Rightarrow> (Account_zero, Some err, maybeReload ks1,
                           key\<lparr>PrivateKey := zeroKey (PrivateKey key)\<rparr>)
            | Inr a' \<Rightarrow> (a', None, maybeReload ks1, key))"
    by (simp add: ImportExtendedKey_def nk h Let_def split: sum.splits)
  from hasAddress_snd [of ks "Address key"] h have "ks1 = maybeReload ks" by simp
  then show "files (maybeReload ks1) = files ks" by (simp add: files_maybeReload)
qed

lemma ImportExtendedKey_twice:
  assumes nk: "newKeyFromExtendedKey E rnd K = (key, None)"
    and h: "hasAddress ks (Address key) = (False, ks1)"
    and io: "\<not> io_fails ks (JoinPath E (keyFileName E now (Address key)))"
  shows "\<exists>ks2.
      ImportExtendedKey E ks rnd now K P =
        (\<lparr>AccountAddress = Address key,
          AccountURL = \<lparr>Scheme = KeyStoreScheme,
                        Path = JoinPath E (keyFileName E now (Address key))\<rparr>\<rparr>,
         None, ks2, key) \<and>
      ImportExtendedKey E ks2 rnd' now' K P =
        (\<lparr>AccountAddress = Address key,
          AccountURL = \<lparr>Scheme = KeyStoreScheme,
                        Path = JoinPath E (keyFileName E now (Address key))\<rparr>\<rparr>,
         None, ks2, key\<lparr>Id := uuid_NewRandom E rnd'\<rparr>) \<and>
      files ks2 =
        AList.update (JoinPath E (keyFileName E now (Address key)))
          \<lparr>s_key = key, s_auth = P\<rparr> (files ks)"
proof -
  let ?p = "JoinPath E (keyFileName E now (Address key))"
  let ?a = "\<lparr>AccountAddress = Address key,
             AccountURL = \<lparr>Scheme = KeyStoreScheme, Path = ?p\<rparr>\<rparr>"
  let ?ks1 = "maybeReload ks"
  let ?ks2 = "?ks1\<lparr>files := AList.update ?p \<lparr>s_key = key, s_auth = P\<rparr> (files ?ks1),
                   cache := cache ?ks1 @ [?a]\<rparr>"
  from hasAddress_snd [of ks "Address key"] h have ks1: "ks1 = ?ks1" by simp
  from h have "\<not> fst (hasAddress ks (Address key))" by simp
  then have none: "\<not> list_ex (\<lambda>b. AccountAddress b = Address key) (cache ?ks1)"
    by (simp add: hasAddress_def Let_def)
  then have nomem: "\<not> List.member (cache ?ks1) ?a"
    by (auto simp: list_ex_iff)
  from none have nofil: "filter (\<lambda>b. AccountAddress b = Address key) (cache ?ks1) = []"
    by (auto simp: list_ex_iff filter_empty_conv)
  have first: "ImportExtendedKey E ks rnd now K P = (?a, None, ?ks2, key)"
    using io nomem
    by (simp add: ImportExtendedKey_def nk h ks1 importKey_def StoreKey_def cache_add_def
        io_fails_maybeReload Let_def)
  have ns: "\<not> stale ?ks2" by (simp add: stale_maybeReload)
  have h2: "hasAddress ?ks2 (Address key) = (True, ?ks2)"
    unfolding hasAddress_def maybeReload_not_stale [OF ns] by (simp add: Let_def)
  have f2: "find_account ?ks2
      \<lparr>AccountAddress = Address key, AccountURL = \<lparr>Scheme = [], Path = []\<rparr>\<rparr> = Inr ?a"
    by (simp add: find_account_def nofil)
  have second: "ImportExtendedKey E ?ks2 rnd' now' K P =
      (?a, None, ?ks2, key\<lparr>Id := uuid_NewRandom E rnd'\<rparr>)"
    unfolding ImportExtendedKey_def newKeyFromExtendedKey_rnd [OF nk]
    using h2 f2 by (simp add: maybeReload_not_stale [OF ns] Let_def)
  have fl: "files ?ks2 = AList.update ?p \<lparr>s_key = key, s_auth = P\<rparr> (files ks)"
    by (simp add: files_maybeReload)
  from first second fl show ?thesis by blast
qed

lemma zeroKey_Some: "\<exists>k'. zeroKey (Some k) = Some k' \<and> zeroed k' \<and> PublicKey k' = PublicKey k"
  by (simp add: zeroKey_def zeroed_def map_replicate_const)

section \<open>Evaluation on the test instance\<close>

lemma test_salt: "hex_EncodeToString (fst (GetEntropyCSPRNG 32 test_rnd)) =
    ''030a11181f262d343b424950575e656c737a81888f969da4abb2b9c0c7ced5dc''"
  by code_simp

lemma test_iv: "hex_EncodeToString (fst (GetEntropyCSPRNG 16 (snd (GetEntropyCSPRNG 32 test_rnd)))) =
    ''e3eaf1f8ff060d141b222930373e454c''"
  by code_simp

lemma test_ct_mac:
  "(case scrypt_Key test_env (bytes_of_string ''ab'') (fst (GetEntropyCSPRNG 32 test_rnd)) 2
          (scryptR test_env) 1 32 of
      Inl e \<Rightarrow> None
    | Inr dk \<Rightarrow>
        (case aesCTRXOR test_env (take 16 dk) (bytes_of_string (ExtString test_env test_key))
                (fst (GetEntropyCSPRNG 16 (snd (GetEntropyCSPRNG 32 test_rnd)))) of
           Inl e \<Rightarrow> None
         | Inr ct \<Rightarrow>
             Some (hex_EncodeToString ct,
                   hex_EncodeToString (Keccak256 test_env [take 16 (drop 16 dk), ct])))) =
   Some (''3831303574747675787a'', ''5b1a'')"
  by code_simp

lemma test_encrypt:
  "EncryptExtendedKey test_env test_rnd (Some test_key) ''ab'' 2 1 = Inr test_blob"
proof -
  have "scrypt_ok test_env 2 (scryptR test_env) 1 32" by (simp add: test_env_def)
  from EncryptExtendedKey_succeeds [OF this] obtain blob where
    enc: "EncryptExtendedKey test_env test_rnd (Some test_key) ''ab'' 2 1 = Inr blob"
    by blast
  from EncryptExtendedKey_Some [OF enc] test_ct_mac have "blob = test_blob"
    unfolding test_salt test_iv test_blob_def
    by (auto simp: test_env_def)
  with enc show ?thesis by simp
qed

lemma test_getDecryptedKey:
  "getDecryptedKey (test_ks i) test_account ''pw'' =
     (Inr (test_account, test_stored_key i), test_ks i)"
  by (simp add: getDecryptedKey_def maybeReload_def find_account_def GetKey_def test_ks_def
      test_account_def test_stored_key_def)

lemma test_IncSubAccountIndex:
  "IncSubAccountIndex (test_ks i) test_account ''pw'' =
     (None, test_ks (i + 1), Some (test_stored_key (i + 1)))"
  by (simp add: IncSubAccountIndex_def test_getDecryptedKey StoreKey_def Let_def)
     (simp add: test_ks_def test_account_def test_stored_key_def)

lemma test_newKey: "newKeyFromExtendedKey test_env test_rnd test_key = (test_derived, None)"
  by code_simp

lemma test_Address: "Address test_derived = [1, 2, 3] @ replicate 17 0"
  by (simp add: test_derived_def)

section \<open>The claims\<close>

text \<open>
  C1. Round trip: whenever \<^verbatim>\<open>EncryptExtendedKey\<close> returns a blob for an extended key \<open>K\<close>
  and a passphrase \<open>P\<close>, \<^verbatim>\<open>decryptExtendedKey\<close> applied with the same passphrase to a
  record of the supported version that carries this blob returns the bytes of the
  serialized string of \<open>K\<close>. The serialized string is taken not to be empty, as the
  serialization of a key never is.
\<close>

theorem encrypt_decrypt_round_trip:
  assumes "EncryptExtendedKey E rnd (Some K) P N p = Inr blob"
    and "ExtString E K \<noteq> []"
    and "V3_ExtendedKey kp = blob"
    and "V3_Version kp = version E"
  shows "decryptExtendedKey E kp P = Inr (bytes_of_string (ExtString E K))"
  using assms by (rule decrypt_encrypt_roundtrip)

text \<open>
  C1 on the test instance: the blob of \<open>test_key\<close> under the passphrase \<open>ab\<close> decrypts,
  under \<open>ab\<close>, to the serialized key.
\<close>

theorem encrypt_decrypt_round_trip_witness:
  "EncryptExtendedKey test_env test_rnd (Some test_key) ''ab'' 2 1 = Inr test_blob \<and>
   ExtString test_env test_key = ''xprv010203'' \<and>
   V3_ExtendedKey (test_record test_blob) = test_blob \<and>
   V3_Version (test_record test_blob) = version test_env \<and>
   decryptExtendedKey test_env (test_record test_blob) ''ab'' = Inr (bytes_of_string ''xprv010203'')"
proof -
  have s: "ExtString test_env test_key = ''xprv010203''" by code_simp
  have r: "V3_ExtendedKey (test_record test_blob) = test_blob"
    "V3_Version (test_record test_blob) = version test_env"
    by (simp_all add: test_record_def test_env_def)
  from encrypt_decrypt_round_trip [OF test_encrypt _ r] s test_encrypt r
  show ?thesis by simp
qed

text \<open>
  C2, as stated, does not hold. \<^verbatim>\<open>scrypt.Key\<close> reads the passphrase as the key of HMAC,
  and HMAC pads its key with zero bytes: a passphrase and the same passphrase followed by
  a NUL byte derive the same key, for every instance of the primitives
  (\<open>decryptExtendedKey_NUL\<close>). The blob encrypted under \<open>ab\<close> decrypts under \<open>ab\<close>
  followed by a NUL byte.
\<close>

theorem wrong_passphrase_counterexample:
  "EncryptExtendedKey test_env test_rnd (Some test_key) ''ab'' 2 1 = Inr test_blob \<and>
   ''ab'' @ [CHR 0x00] \<noteq> ''ab'' \<and>
   decryptExtendedKey test_env (test_record test_blob) (''ab'' @ [CHR 0x00]) =
     Inr (bytes_of_string ''xprv010203'')"
proof -
  have s: "ExtString test_env test_key = ''xprv010203''" by code_simp
  have r: "V3_ExtendedKey (test_record test_blob) = test_blob"
    "V3_Version (test_record test_blob) = version test_env"
    by (simp_all add: test_record_def test_env_def)
  have "decryptExtendedKey test_env (test_record test_blob) (''ab'' @ [CHR 0x00]) =
      decryptExtendedKey test_env (test_record test_blob) ''ab''"
    by (rule decryptExtendedKey_NUL) simp
  also have "\<dots> = Inr (bytes_of_string (ExtString test_env test_key))"
    by (rule decrypt_encrypt_roundtrip [OF test_encrypt _ r]) (simp add: s)
  finally show ?thesis using test_encrypt by (simp add: s)
qed

text \<open>
  C2, amended. For a blob produced under a passphrase \<open>P\<close>, decryption under a passphrase
  \<open>P'\<close> fails with \<open>ErrDecrypt\<close>, and returns no plaintext, exactly when the MAC recomputed
  from the key derived from \<open>P'\<close> is not the stored MAC; otherwise it returns a plaintext,
  and the plaintext of the encryption when \<open>P'\<close> has the HMAC key block of \<open>P\<close>. A blob
  whose ciphertext was replaced by another ciphertext that is not empty, or whose MAC was
  replaced, fails with the same error under the same condition. The IV is not covered by
  the MAC: replacing it is not detected.
\<close>

theorem MAC_decides_decryption:
  assumes enc: "EncryptExtendedKey E rnd (Some K) P N p = Inr blob"
    and ne: "ExtString E K \<noteq> []"
    and ver: "V3_Version kp = version E"
  shows "(V3_ExtendedKey kp = blob \<and> \<not> macMatches E blob P' \<longrightarrow>
            decryptExtendedKey E kp P' = Inl ErrDecrypt) \<and>
         (V3_ExtendedKey kp = blob \<and> macMatches E blob P' \<longrightarrow>
            (\<exists>pt. decryptExtendedKey E kp P' = Inr pt)) \<and>
         (V3_ExtendedKey kp = blob \<and>
          hmac_key_block E (bytes_of_string P') = hmac_key_block E (bytes_of_string P) \<longrightarrow>
            decryptExtendedKey E kp P' = Inr (bytes_of_string (ExtString E K))) \<and>
         (ct' \<noteq> [] \<and>
          V3_ExtendedKey kp =
            blob\<lparr>CipherText := hex_EncodeToString ct', MAC := hex_EncodeToString mac'\<rparr> \<and>
          \<not> macMatches E (V3_ExtendedKey kp) P' \<longrightarrow>
            decryptExtendedKey E kp P' = Inl ErrDecrypt) \<and>
         (length iv' = 16 \<and>
          V3_ExtendedKey kp = blob\<lparr>CipherParams := \<lparr>IV = hex_EncodeToString iv'\<rparr>\<rparr> \<longrightarrow>
            (\<exists>pt. decryptExtendedKey E kp P = Inr pt))"
proof -
  from encrypted_blob_shape [OF enc ne] obtain ct mac iv where
    ct: "ct \<noteq> []" and iv: "length iv = 16"
    and shape: "blob = blob\<lparr>CipherText := hex_EncodeToString ct, MAC := hex_EncodeToString mac,
                       CipherParams := \<lparr>IV = hex_EncodeToString iv\<rparr>\<rparr>"
    by blast
  have whole: "\<exists>pt. decryptExtendedKey E kp auth' =
      (if macMatches E blob auth' then Inr pt else Inl ErrDecrypt)"
    if kp: "V3_ExtendedKey kp = blob" for auth'
  proof -
    from kp shape have "V3_ExtendedKey kp =
        blob\<lparr>CipherText := hex_EncodeToString ct, MAC := hex_EncodeToString mac,
             CipherParams := \<lparr>IV = hex_EncodeToString iv\<rparr>\<rparr>"
      by simp
    from decryptExtendedKey_variant [OF enc this ver ct iv, of auth'] kp
    show ?thesis by simp
  qed
  have a: "decryptExtendedKey E kp P' = Inl ErrDecrypt"
    if "V3_ExtendedKey kp = blob" "\<not> macMatches E blob P'"
    using whole [OF that(1), of P'] that(2) by auto
  have b: "\<exists>pt. decryptExtendedKey E kp P' = Inr pt"
    if "V3_ExtendedKey kp = blob" "macMatches E blob P'"
    using whole [OF that(1), of P'] that(2) by auto
  have c: "decryptExtendedKey E kp P' = Inr (bytes_of_string (ExtString E K))"
    if "V3_ExtendedKey kp = blob"
      "hmac_key_block E (bytes_of_string P') = hmac_key_block E (bytes_of_string P)"
    using decryptExtendedKey_hmac_cong [OF that(2), of kp]
      decrypt_encrypt_roundtrip [OF enc ne that(1) ver]
    by simp
  have d: "decryptExtendedKey E kp P' = Inl ErrDecrypt"
    if "ct' \<noteq> []"
      "V3_ExtendedKey kp =
         blob\<lparr>CipherText := hex_EncodeToString ct', MAC := hex_EncodeToString mac'\<rparr>"
      "\<not> macMatches E (V3_ExtendedKey kp) P'"
  proof -
    from shape have "CipherParams blob = \<lparr>IV = hex_EncodeToString iv\<rparr>"
      by (metis cryptoJSON.select_convs(3) cryptoJSON.surjective cryptoJSON.update_convs(3))
    with that(2) have "V3_ExtendedKey kp =
        blob\<lparr>CipherText := hex_EncodeToString ct', MAC := hex_EncodeToString mac',
             CipherParams := \<lparr>IV = hex_EncodeToString iv\<rparr>\<rparr>"
      by simp
    from decryptExtendedKey_variant [OF enc this ver that(1) iv, of P'] that(3)
    show ?thesis by auto
  qed
  have e: "\<exists>pt. decryptExtendedKey E kp P = Inr pt"
    if "length iv' = 16"
      "V3_ExtendedKey kp = blob\<lparr>CipherParams := \<lparr>IV = hex_EncodeToString iv'\<rparr>\<rparr>"
  proof -
    from shape have "CipherText blob = hex_EncodeToString ct" "MAC blob = hex_EncodeToString mac"
      by (metis cryptoJSON.select_convs(2) cryptoJSON.surjective cryptoJSON.update_convs(2)
          cryptoJSON.update_convs(3) cryptoJSON.update_convs(6),
          metis cryptoJSON.select_convs(6) cryptoJSON.surjective cryptoJSON.update_convs(3)
          cryptoJSON.update_convs(6))
    with that(2) have "V3_ExtendedKey kp =
        blob\<lparr>CipherText := hex_EncodeToString ct, MAC := hex_EncodeToString mac,
             CipherParams := \<lparr>IV = hex_EncodeToString iv'\<rparr>\<rparr>"
      by simp
    from decryptExtendedKey_variant [OF enc this ver ct that(1), of P]
      macMatches_encrypted [OF enc, of "\<lparr>IV = hex_EncodeToString iv'\<rparr>"] that(2)
    show ?thesis by auto
  qed
  from a b c d e show ?thesis by blast
qed

text \<open>
  C2, amended, on the test instance: the passphrases \<open>wrong\<close> and \<open>ba\<close> on the blob of
  \<open>ab\<close>; the passphrase \<open>ab\<close> followed by a NUL byte; the passphrase \<open>ab\<close> on that blob
  with another ciphertext and MAC, and with another IV.
\<close>

theorem MAC_decides_decryption_witness:
  "EncryptExtendedKey test_env test_rnd (Some test_key) ''ab'' 2 1 = Inr test_blob \<and>
   \<not> macMatches test_env test_blob ''wrong'' \<and>
   decryptExtendedKey test_env (test_record test_blob) ''wrong'' = Inl ErrDecrypt \<and>
   \<not> macMatches test_env test_blob ''ba'' \<and>
   decryptExtendedKey test_env (test_record test_blob) ''ba'' = Inl ErrDecrypt \<and>
   macMatches test_env test_blob (''ab'' @ [CHR 0x00]) \<and>
   (\<exists>pt. decryptExtendedKey test_env (test_record test_blob) (''ab'' @ [CHR 0x00]) = Inr pt) \<and>
   \<not> macMatches test_env (test_blob\<lparr>CipherText := hex_EncodeToString [1, 2],
                                      MAC := hex_EncodeToString [0, 0]\<rparr>) ''ab'' \<and>
   decryptExtendedKey test_env
     (test_record (test_blob\<lparr>CipherText := hex_EncodeToString [1, 2],
                              MAC := hex_EncodeToString [0, 0]\<rparr>)) ''ab'' = Inl ErrDecrypt \<and>
   (\<exists>pt. decryptExtendedKey test_env
     (test_record (test_blob\<lparr>CipherParams := \<lparr>IV = hex_EncodeToString (replicate 16 0)\<rparr>\<rparr>))
     ''ab'' = Inr pt)"
proof -
  have ne: "ExtString test_env test_key \<noteq> []" by code_simp
  have m1: "\<not> macMatches test_env test_blob ''wrong''" by code_simp
  have m2: "\<not> macMatches test_env test_blob ''ba''" by code_simp
  have m3: "macMatches test_env test_blob (''ab'' @ [CHR 0x00])" by code_simp
  have m4: "\<not> macMatches test_env (test_blob\<lparr>CipherText := hex_EncodeToString [1, 2],
                                      MAC := hex_EncodeToString [0, 0]\<rparr>) ''ab''"
    by code_simp
  have v: "V3_Version (test_record b) = version test_env" for b
    by (simp add: test_record_def test_env_def)
  have r: "V3_ExtendedKey (test_record b) = b" for b
    by (simp add: test_record_def)
  note th = MAC_decides_decryption [OF test_encrypt ne v]
  from th [of test_blob "''wrong''"] m1 r
  have w1: "decryptExtendedKey test_env (test_record test_blob) ''wrong'' = Inl ErrDecrypt"
    by simp
  from th [of test_blob "''ba''"] m2 r
  have w2: "decryptExtendedKey test_env (test_record test_blob) ''ba'' = Inl ErrDecrypt"
    by simp
  from th [of test_blob "''ab'' @ [CHR 0x00]"] m3 r
  have w3: "\<exists>pt. decryptExtendedKey test_env (test_record test_blob) (''ab'' @ [CHR 0x00]) = Inr pt"
    by simp
  from th [of "test_blob\<lparr>CipherText := hex_EncodeToString [1, 2], MAC := hex_EncodeToString [0, 0]\<rparr>"
      "''ab''" "[1, 2]" "[0, 0]"] m4 r
  have w4: "decryptExtendedKey test_env
     (test_record (test_blob\<lparr>CipherText := hex_EncodeToString [1, 2],
                              MAC := hex_EncodeToString [0, 0]\<rparr>)) ''ab'' = Inl ErrDecrypt"
    by simp
  from th [of "test_blob\<lparr>CipherParams := \<lparr>IV = hex_EncodeToString (replicate 16 0)\<rparr>\<rparr>"
      "''ab''" "[1, 2]" "[0, 0]" "replicate 16 0"] r
  have w5: "\<exists>pt. decryptExtendedKey test_env
     (test_record (test_blob\<lparr>CipherParams := \<lparr>IV = hex_EncodeToString (replicate 16 0)\<rparr>\<rparr>))
     ''ab'' = Inr pt"
    by simp
  from test_encrypt m1 m2 m3 m4 w1 w2 w3 w4 w5 show ?thesis by blast
qed

text \<open>
  C3. For a key of depth 0, \<^verbatim>\<open>newKeyFromExtendedKey\<close> derives the BIP44 child of the fixed
  coin type at index 0 for the account key and the one at index 1 for the sub-account
  root; it returns the error of a derivation that fails, and otherwise a key record made
  of the two children, which are distinct. For a key of any other depth nothing is
  derived: the account key and the sub-account root are the input key.
\<close>

theorem newKeyFromExtendedKey_master_vs_non_master:
  "(Depth K = 0 \<longrightarrow>
      (case BIP44Child E K (CoinTypeETH E) 0 of
         Inl e \<Rightarrow> newKeyFromExtendedKey E rnd K = (Key_zero, Some e)
       | Inr extChild1 \<Rightarrow>
           (case BIP44Child E K (CoinTypeETH E) 1 of
              Inl e \<Rightarrow> newKeyFromExtendedKey E rnd K = (Key_zero, Some e)
            | Inr extChild2 \<Rightarrow>
                extChild1 \<noteq> extChild2 \<and>
                newKeyFromExtendedKey E rnd K =
                  (\<lparr>Id = uuid_NewRandom E rnd,
                    Address = PubkeyToAddress E (PublicKey (ToECDSA E extChild1)),
                    PrivateKey = Some (ToECDSA E extChild1),
                    ExtendedKey = Some extChild2,
                    SubAccountIndex = 0\<rparr>, None)))) \<and>
   (Depth K \<noteq> 0 \<longrightarrow>
      newKeyFromExtendedKey E rnd K =
        (\<lparr>Id = uuid_NewRandom E rnd,
          Address = PubkeyToAddress E (PublicKey (ToECDSA E K)),
          PrivateKey = Some (ToECDSA E K),
          ExtendedKey = Some K,
          SubAccountIndex = 0\<rparr>, None))"
proof (intro conjI impI)
  assume d: "Depth K = 0"
  show "case BIP44Child E K (CoinTypeETH E) 0 of
         Inl e \<Rightarrow> newKeyFromExtendedKey E rnd K = (Key_zero, Some e)
       | Inr extChild1 \<Rightarrow>
           (case BIP44Child E K (CoinTypeETH E) 1 of
              Inl e \<Rightarrow> newKeyFromExtendedKey E rnd K = (Key_zero, Some e)
            | Inr extChild2 \<Rightarrow>
                extChild1 \<noteq> extChild2 \<and>
                newKeyFromExtendedKey E rnd K =
                  (\<lparr>Id = uuid_NewRandom E rnd,
                    Address = PubkeyToAddress E (PublicKey (ToECDSA E extChild1)),
                    PrivateKey = Some (ToECDSA E extChild1),
                    ExtendedKey = Some extChild2,
                    SubAccountIndex = 0\<rparr>, None))"
  proof (cases "BIP44Child E K (CoinTypeETH E) 0")
    case (Inl e)
    with d show ?thesis by (simp add: newKeyFromExtendedKey_def)
  next
    case c1: (Inr extChild1)
    show ?thesis
    proof (cases "BIP44Child E K (CoinTypeETH E) 1")
      case (Inl e)
      with d c1 show ?thesis by (simp add: newKeyFromExtendedKey_def)
    next
      case c2: (Inr extChild2)
      from BIP44Child_ChildNumber [OF c1] BIP44Child_ChildNumber [OF c2]
      have "extChild1 \<noteq> extChild2" by auto
      with d c1 c2 show ?thesis by (simp add: newKeyFromExtendedKey_def Let_def)
    qed
  qed
next
  assume "Depth K \<noteq> 0"
  then show "newKeyFromExtendedKey E rnd K =
        (\<lparr>Id = uuid_NewRandom E rnd,
          Address = PubkeyToAddress E (PublicKey (ToECDSA E K)),
          PrivateKey = Some (ToECDSA E K),
          ExtendedKey = Some K,
          SubAccountIndex = 0\<rparr>, None)"
    by (simp add: newKeyFromExtendedKey_def Let_def)
qed

text \<open>
  C3 on the test instance: a master key of depth 0 and a key of depth 1.
\<close>

theorem newKeyFromExtendedKey_master_vs_non_master_witness:
  "Depth test_master = 0 \<and>
   BIP44Child test_env test_master (CoinTypeETH test_env) 0 =
     Inr \<lparr>KeyData = [9, 44, 60, 0, 0, 0], ChainCode = [4], Depth = 5, FingerPrint = [9],
          ChildNumber = 0\<rparr> \<and>
   BIP44Child test_env test_master (CoinTypeETH test_env) 1 =
     Inr \<lparr>KeyData = [9, 44, 60, 0, 0, 1], ChainCode = [4], Depth = 5, FingerPrint = [9],
          ChildNumber = 1\<rparr> \<and>
   fst (newKeyFromExtendedKey test_env test_rnd test_master) =
     \<lparr>Id = uuid_NewRandom test_env test_rnd,
      Address = PubkeyToAddress test_env (PublicKey (ToECDSA test_env
         \<lparr>KeyData = [9, 44, 60, 0, 0, 0], ChainCode = [4], Depth = 5, FingerPrint = [9],
          ChildNumber = 0\<rparr>)),
      PrivateKey = Some (ToECDSA test_env
         \<lparr>KeyData = [9, 44, 60, 0, 0, 0], ChainCode = [4], Depth = 5, FingerPrint = [9],
          ChildNumber = 0\<rparr>),
      ExtendedKey = Some \<lparr>KeyData = [9, 44, 60, 0, 0, 1], ChainCode = [4], Depth = 5,
          FingerPrint = [9], ChildNumber = 1\<rparr>,
      SubAccountIndex = 0\<rparr> \<and>
   Depth test_key \<noteq> 0 \<and>
   fst (newKeyFromExtendedKey test_env test_rnd test_key) =
     \<lparr>Id = uuid_NewRandom test_env test_rnd,
      Address = PubkeyToAddress test_env (PublicKey (ToECDSA test_env test_key)),
      PrivateKey = Some (ToECDSA test_env test_key),
      ExtendedKey = Some test_key,
      SubAccountIndex = 0\<rparr>"
proof -
  have d: "Depth test_master = 0" "Depth test_key \<noteq> 0"
    by (simp_all add: test_master_def test_key_def)
  have c1: "BIP44Child test_env test_master (CoinTypeETH test_env) 0 =
     Inr \<lparr>KeyData = [9, 44, 60, 0, 0, 0], ChainCode = [4], Depth = 5, FingerPrint = [9],
          ChildNumber = 0\<rparr>"
    by code_simp
  have c2: "BIP44Child test_env test_master (CoinTypeETH test_env) 1 =
     Inr \<lparr>KeyData = [9, 44, 60, 0, 0, 1], ChainCode = [4], Depth = 5, FingerPrint = [9],
          ChildNumber = 1\<rparr>"
    by code_simp
  from newKeyFromExtendedKey_master_vs_non_master [of test_master test_env test_rnd]
    newKeyFromExtendedKey_master_vs_non_master [of test_key test_env test_rnd]
    d c1 c2
  show ?thesis by simp
qed

text \<open>
  C4, as stated, does not hold at the largest index: \<^verbatim>\<open>SubAccountIndex\<close> is a
  \<^verbatim>\<open>uint32\<close>, and a record persisted with the index 4294967295 is persisted with the
  index 0 after one successful call.
\<close>

theorem IncSubAccountIndex_wraps_counterexample:
  "unat (SubAccountIndex (test_stored_key 4294967295)) = 4294967295 \<and>
   getDecryptedKey (test_ks 4294967295) test_account ''pw'' =
     (Inr (test_account, test_stored_key 4294967295), test_ks 4294967295) \<and>
   IncSubAccountIndex (test_ks 4294967295) test_account ''pw'' =
     (None, test_ks 0, Some (test_stored_key 0)) \<and>
   getDecryptedKey (test_ks 0) test_account ''pw'' =
     (Inr (test_account, test_stored_key 0), test_ks 0) \<and>
   unat (SubAccountIndex (test_stored_key 0)) = 0"
proof -
  have w: "(4294967295::32 word) + 1 = 0" by simp
  have u: "unat (4294967295::32 word) = 4294967295" by simp
  from test_IncSubAccountIndex [of 4294967295] w
  have "IncSubAccountIndex (test_ks 4294967295) test_account ''pw'' =
     (None, test_ks 0, Some (test_stored_key 0))"
    by (simp only:)
  then show ?thesis
    by (simp add: test_getDecryptedKey) (simp add: test_stored_key_def u)
qed

text \<open>
  C4, amended. When the decryption of the persisted record fails, \<^verbatim>\<open>IncSubAccountIndex\<close>
  returns that error and the persisted files are unchanged. When it succeeds and the
  file can be written, the record is persisted again with the index incremented by one
  modulo \<open>2^32\<close> and nothing else changed; \<open>n\<close> calls in sequence all succeed and leave
  the index \<open>(i + n) mod 2^32\<close>, that is \<open>i + n\<close> as long as this is below \<open>2^32\<close>.
\<close>

theorem IncSubAccountIndex_counter:
  "(fst (getDecryptedKey ks a P) = Inl e \<longrightarrow>
      IncSubAccountIndex ks a P = (Some e, maybeReload ks, None) \<and>
      files (maybeReload ks) = files ks) \<and>
   (getDecryptedKey ks a P = (Inr (a', key), ks1) \<and> \<not> io_fails ks (Path (AccountURL a')) \<longrightarrow>
      (\<exists>ks2. IncSubAccountIndex ks a P =
                (None, ks2, Some (key\<lparr>SubAccountIndex := SubAccountIndex key + 1\<rparr>)) \<and>
              files ks2 =
                AList.update (Path (AccountURL a'))
                  \<lparr>s_key = key\<lparr>SubAccountIndex := SubAccountIndex key + 1\<rparr>, s_auth = P\<rparr>
                  (files ks)) \<and>
      (\<exists>ksN. IncSubAccountIndex_times n ks a P = (None, ksN) \<and>
              fst (getDecryptedKey ksN a P) =
                Inr (a', key\<lparr>SubAccountIndex := SubAccountIndex key + of_nat n\<rparr>)) \<and>
      unat (SubAccountIndex key + of_nat n) = (unat (SubAccountIndex key) + n) mod 2 ^ 32)"
proof (intro conjI impI; (elim conjE)?)
  assume "fst (getDecryptedKey ks a P) = Inl e"
  then show "IncSubAccountIndex ks a P = (Some e, maybeReload ks, None)"
    using snd_getDecryptedKey [of ks a P]
    by (cases "getDecryptedKey ks a P") (simp add: IncSubAccountIndex_def)
next
  show "files (maybeReload ks) = files ks" by (rule files_maybeReload)
next
  assume g: "getDecryptedKey ks a P = (Inr (a', key), ks1)"
    and io: "\<not> io_fails ks (Path (AccountURL a'))"
  from IncSubAccountIndex_step [OF g io]
  show "\<exists>ks2. IncSubAccountIndex ks a P =
                (None, ks2, Some (key\<lparr>SubAccountIndex := SubAccountIndex key + 1\<rparr>)) \<and>
              files ks2 =
                AList.update (Path (AccountURL a'))
                  \<lparr>s_key = key\<lparr>SubAccountIndex := SubAccountIndex key + 1\<rparr>, s_auth = P\<rparr>
                  (files ks)"
    by blast
  from IncSubAccountIndex_times_counts [OF g io]
  show "\<exists>ksN. IncSubAccountIndex_times n ks a P = (None, ksN) \<and>
              fst (getDecryptedKey ksN a P) =
                Inr (a', key\<lparr>SubAccountIndex := SubAccountIndex key + of_nat n\<rparr>)" .
next
  show "unat (SubAccountIndex key + of_nat n) = (unat (SubAccountIndex key) + n) mod 2 ^ 32"
    by (rule unat_uint32_plus)
qed

text \<open>
  C4, amended, on the test key store: three calls from the index 5, and a call with
  another passphrase.
\<close>

theorem IncSubAccountIndex_counter_witness:
  "getDecryptedKey (test_ks 5) test_account ''pw'' =
     (Inr (test_account, test_stored_key 5), test_ks 5) \<and>
   \<not> io_fails (test_ks 5) (Path (AccountURL test_account)) \<and>
   IncSubAccountIndex (test_ks 5) test_account ''pw'' =
     (None, test_ks 6, Some (test_stored_key 6)) \<and>
   (\<exists>ksN. IncSubAccountIndex_times 3 (test_ks 5) test_account ''pw'' = (None, ksN) \<and>
      fst (getDecryptedKey ksN test_account ''pw'') = Inr (test_account, test_stored_key 8)) \<and>
   fst (getDecryptedKey (test_ks 5) test_account ''wrong'') = Inl ErrDecrypt \<and>
   IncSubAccountIndex (test_ks 5) test_account ''wrong'' =
     (Some ErrDecrypt, maybeReload (test_ks 5), None) \<and>
   files (maybeReload (test_ks 5)) = files (test_ks 5)"
proof -
  have io: "\<not> io_fails (test_ks 5) (Path (AccountURL test_account))"
    by (simp add: test_ks_def)
  have w: "fst (getDecryptedKey (test_ks 5) test_account ''wrong'') = Inl ErrDecrypt"
    by (simp add: getDecryptedKey_def maybeReload_def find_account_def GetKey_def test_ks_def
        test_account_def test_stored_key_def)
  have k: "(test_stored_key 5)\<lparr>SubAccountIndex := SubAccountIndex (test_stored_key 5) + 3\<rparr> =
      test_stored_key 8"
    by (simp add: test_stored_key_def)
  from IncSubAccountIndex_counter [of "test_ks 5" test_account "''pw''" ErrDecrypt
      test_account "test_stored_key 5" "test_ks 5" 3]
    IncSubAccountIndex_counter [of "test_ks 5" test_account "''wrong''" ErrDecrypt
      test_account "test_stored_key 5" "test_ks 5" 3]
    test_getDecryptedKey [of 5] io w test_IncSubAccountIndex [of 5]
  show ?thesis by (simp add: k)
qed

text \<open>
  C5. When the derived address is tracked by the cache, \<^verbatim>\<open>ImportExtendedKey\<close> stores
  nothing. Where the lookup in the cache succeeds it returns the tracked account and no
  error. Where the lookup fails it returns the error of the lookup, and the derived
  private key is left scrubbed: every word of its secret scalar is 0. When the address is
  not tracked and the file can be written, a first call stores one record and returns the
  new account, and a second call with the same key and passphrase returns the same
  account and leaves the key store as it is.
\<close>

theorem ImportExtendedKey_idempotent:
  assumes "newKeyFromExtendedKey E rnd K = (key, None)"
  shows
    "(hasAddress ks (Address key) = (True, ks1) \<longrightarrow>
        (case find_account (maybeReload ks1)
                \<lparr>AccountAddress = Address key, AccountURL = \<lparr>Scheme = [], Path = []\<rparr>\<rparr> of
           Inl err \<Rightarrow>
             (\<exists>pk. PrivateKey key = Some pk \<and>
                ImportExtendedKey E ks rnd now K P =
                  (Account_zero, Some err, maybeReload ks1,
                   key\<lparr>PrivateKey := Some (pk\<lparr>D := replicate (length (D pk)) 0\<rparr>)\<rparr>))
         | Inr a' \<Rightarrow> ImportExtendedKey E ks rnd now K P = (a', None, maybeReload ks1, key)) \<and>
        files (maybeReload ks1) = files ks) \<and>
     (hasAddress ks (Address key) = (False, ks1) \<and>
      \<not> io_fails ks (JoinPath E (keyFileName E now (Address key))) \<longrightarrow>
        (\<exists>ks2.
           ImportExtendedKey E ks rnd now K P =
             (\<lparr>AccountAddress = Address key,
               AccountURL = \<lparr>Scheme = KeyStoreScheme,
                             Path = JoinPath E (keyFileName E now (Address key))\<rparr>\<rparr>,
              None, ks2, key) \<and>
           ImportExtendedKey E ks2 rnd' now' K P =
             (\<lparr>AccountAddress = Address key,
               AccountURL = \<lparr>Scheme = KeyStoreScheme,
                             Path = JoinPath E (keyFileName E now (Address key))\<rparr>\<rparr>,
              None, ks2, key\<lparr>Id := uuid_NewRandom E rnd'\<rparr>) \<and>
           files ks2 =
             AList.update (JoinPath E (keyFileName E now (Address key)))
               \<lparr>s_key = key, s_auth = P\<rparr> (files ks)))"
proof -
  from assms obtain pk where pk: "PrivateKey key = Some pk"
    by (auto simp: newKeyFromExtendedKey_def Let_def split: sum.splits if_splits)
  have z: "zeroKey (PrivateKey key) = Some (pk\<lparr>D := replicate (length (D pk)) 0\<rparr>)"
    by (simp add: pk zeroKey_def map_replicate_const)
  have tracked:
    "(case find_account (maybeReload ks1)
            \<lparr>AccountAddress = Address key, AccountURL = \<lparr>Scheme = [], Path = []\<rparr>\<rparr> of
        Inl err \<Rightarrow>
          (\<exists>pk. PrivateKey key = Some pk \<and>
             ImportExtendedKey E ks rnd now K P =
               (Account_zero, Some err, maybeReload ks1,
                key\<lparr>PrivateKey := Some (pk\<lparr>D := replicate (length (D pk)) 0\<rparr>)\<rparr>))
      | Inr a' \<Rightarrow> ImportExtendedKey E ks rnd now K P = (a', None, maybeReload ks1, key))"
    if h: "hasAddress ks (Address key) = (True, ks1)"
    using ImportExtendedKey_tracked(1) [OF assms h, of now P] pk z
    by (simp split: sum.splits)
  from tracked ImportExtendedKey_tracked(2) [OF assms] ImportExtendedKey_twice [OF assms]
  show ?thesis by blast
qed

text \<open>
  C5 on the test instance: two imports into the empty key store, an import into a key
  store that tracks the address, and an import into a key store whose cache tracks two
  files for the address, where the lookup fails.
\<close>

theorem ImportExtendedKey_idempotent_witness:
  "newKeyFromExtendedKey test_env test_rnd test_key = (test_derived, None) \<and>
   hasAddress test_ks_empty (Address test_derived) = (False, test_ks_empty) \<and>
   \<not> io_fails test_ks_empty (JoinPath test_env (keyFileName test_env 0 (Address test_derived))) \<and>
   (\<exists>ks2.
      ImportExtendedKey test_env test_ks_empty test_rnd 0 test_key ''pw'' =
        (\<lparr>AccountAddress = Address test_derived,
          AccountURL = \<lparr>Scheme = KeyStoreScheme,
            Path = JoinPath test_env (keyFileName test_env 0 (Address test_derived))\<rparr>\<rparr>,
         None, ks2, test_derived) \<and>
      ImportExtendedKey test_env ks2 (\<lambda>i. 0) 1 test_key ''pw'' =
        (\<lparr>AccountAddress = Address test_derived,
          AccountURL = \<lparr>Scheme = KeyStoreScheme,
            Path = JoinPath test_env (keyFileName test_env 0 (Address test_derived))\<rparr>\<rparr>,
         None, ks2, test_derived\<lparr>Id := uuid_NewRandom test_env (\<lambda>i. 0)\<rparr>) \<and>
      files ks2 =
        [(JoinPath test_env (keyFileName test_env 0 (Address test_derived)),
          \<lparr>s_key = test_derived, s_auth = ''pw''\<rparr>)]) \<and>
   hasAddress (test_ks 0) (Address test_derived) = (True, test_ks 0) \<and>
   ImportExtendedKey test_env (test_ks 0) test_rnd 0 test_key ''pw'' =
     (test_account, None, test_ks 0, test_derived) \<and>
   hasAddress test_ks_ambiguous (Address test_derived) = (True, test_ks_ambiguous) \<and>
   find_account (maybeReload test_ks_ambiguous)
     \<lparr>AccountAddress = Address test_derived, AccountURL = \<lparr>Scheme = [], Path = []\<rparr>\<rparr> =
     Inl ErrAmbiguousAddr \<and>
   PrivateKey test_derived = Some \<lparr>PublicKey = [1, 2, 3], D = [1, 2, 3]\<rparr> \<and>
   ImportExtendedKey test_env test_ks_ambiguous test_rnd 0 test_key ''pw'' =
     (Account_zero, Some ErrAmbiguousAddr, test_ks_ambiguous,
      test_derived\<lparr>PrivateKey := Some \<lparr>PublicKey = [1, 2, 3], D = [0, 0, 0]\<rparr>\<rparr>)"
proof -
  have h0: "hasAddress test_ks_empty (Address test_derived) = (False, test_ks_empty)"
    by (simp add: hasAddress_def maybeReload_def test_ks_empty_def)
  have io: "\<not> io_fails test_ks_empty
      (JoinPath test_env (keyFileName test_env 0 (Address test_derived)))"
    by (simp add: test_ks_empty_def)
  have h1: "hasAddress (test_ks 0) (Address test_derived) = (True, test_ks 0)"
    by (simp add: hasAddress_def maybeReload_def test_ks_def test_account_def test_Address)
  have m: "maybeReload (test_ks 0) = test_ks 0"
    by (simp add: maybeReload_def test_ks_def)
  have f: "find_account (test_ks 0)
      \<lparr>AccountAddress = Address test_derived, AccountURL = \<lparr>Scheme = [], Path = []\<rparr>\<rparr> =
      Inr test_account"
    by (simp add: find_account_def test_ks_def test_account_def test_Address)
  have e: "files test_ks_empty = []" by (simp add: test_ks_empty_def)
  have ma: "maybeReload test_ks_ambiguous = test_ks_ambiguous"
    by (simp add: maybeReload_def test_ks_ambiguous_def)
  have ha: "hasAddress test_ks_ambiguous (Address test_derived) = (True, test_ks_ambiguous)"
    by (simp add: hasAddress_def maybeReload_def test_ks_ambiguous_def test_Address)
  have fa: "find_account (maybeReload test_ks_ambiguous)
     \<lparr>AccountAddress = Address test_derived, AccountURL = \<lparr>Scheme = [], Path = []\<rparr>\<rparr> =
     Inl ErrAmbiguousAddr"
    unfolding ma by (simp add: find_account_def test_ks_ambiguous_def test_Address)
  have pk: "PrivateKey test_derived = Some \<lparr>PublicKey = [1, 2, 3], D = [1, 2, 3]\<rparr>"
    by (simp add: test_derived_def)
  note th = ImportExtendedKey_idempotent [OF test_newKey]
  from th [of test_ks_empty test_ks_empty 0 "''pw''" "\<lambda>i. 0" 1] h0 io e
  have twice: "\<exists>ks2.
      ImportExtendedKey test_env test_ks_empty test_rnd 0 test_key ''pw'' =
        (\<lparr>AccountAddress = Address test_derived,
          AccountURL = \<lparr>Scheme = KeyStoreScheme,
            Path = JoinPath test_env (keyFileName test_env 0 (Address test_derived))\<rparr>\<rparr>,
         None, ks2, test_derived) \<and>
      ImportExtendedKey test_env ks2 (\<lambda>i. 0) 1 test_key ''pw'' =
        (\<lparr>AccountAddress = Address test_derived,
          AccountURL = \<lparr>Scheme = KeyStoreScheme,
            Path = JoinPath test_env (keyFileName test_env 0 (Address test_derived))\<rparr>\<rparr>,
         None, ks2, test_derived\<lparr>Id := uuid_NewRandom test_env (\<lambda>i. 0)\<rparr>) \<and>
      files ks2 =
        [(JoinPath test_env (keyFileName test_env 0 (Address test_derived)),
          \<lparr>s_key = test_derived, s_auth = ''pw''\<rparr>)]"
    by simp
  from th [of "test_ks 0" "test_ks 0" 0 "''pw''"] h1
  have cached: "ImportExtendedKey test_env (test_ks 0) test_rnd 0 test_key ''pw'' =
     (test_account, None, test_ks 0, test_derived)"
    by (simp add: m f)
  from th [of test_ks_ambiguous test_ks_ambiguous 0 "''pw''"] ha fa pk
  have failed: "ImportExtendedKey test_env test_ks_ambiguous test_rnd 0 test_key ''pw'' =
     (Account_zero, Some ErrAmbiguousAddr, test_ks_ambiguous,
      test_derived\<lparr>PrivateKey := Some \<lparr>PublicKey = [1, 2, 3], D = [0, 0, 0]\<rparr>\<rparr>)"
    by (simp add: ma eval_nat_numeral)
  from test_newKey h0 io twice h1 cached ha fa pk failed show ?thesis by blast
qed

text \<open>
  C6. A record whose version is the string \<open>1\<close> and that has no sub-account index field,
  as legacy records are, is decrypted by \<^verbatim>\<open>decryptKeyV1\<close> alone; when that succeeds,
  \<^verbatim>\<open>DecryptKey\<close> returns the key record with the empty extended key as derivation root
  and the sub-account index 0.
\<close>

theorem legacy_record_decrypts_to_sentinel:
  assumes "json_Unmarshal_map E keyjson = Inr m"
    and "m ''version'' = Some (IString ''1'')"
    and "m ''subaccountindex'' = None"
    and "json_Unmarshal_V1 E keyjson = Inr k"
    and "decryptKeyV1 E k auth = Inr (keyBytes, keyId)"
  shows "DecryptKey E keyjson auth =
           Inr \<lparr>Id = keyId,
                Address = PubkeyToAddress E (PublicKey (ToECDSAUnsafe E keyBytes)),
                PrivateKey = Some (ToECDSAUnsafe E keyBytes),
                ExtendedKey = Some ExtendedKey_zero,
                SubAccountIndex = 0\<rparr>"
  using assms
  by (simp add: DecryptKey_def NewKeyFromString_def uint32_of_float64_def int64_of_float64_def
      Let_def)

text \<open>
  C6 on the test instance.
\<close>

theorem legacy_record_decrypts_to_sentinel_witness:
  "DecryptKey test_env (bytes_of_string ''legacy'') ''pw'' =
     Inr \<lparr>Id = [7], Address = [1, 2, 3] @ replicate 17 0,
          PrivateKey = Some \<lparr>PublicKey = [1, 2, 3], D = [1, 2, 3]\<rparr>,
          ExtendedKey = Some ExtendedKey_zero, SubAccountIndex = 0\<rparr>"
proof -
  have 1: "json_Unmarshal_map test_env (bytes_of_string ''legacy'') = Inr [''version'' \<mapsto> IString ''1'']"
    by (simp add: test_env_def)
  have 2: "[''version'' \<mapsto> IString ''1''] ''version'' = Some (IString ''1'')"
    "[''version'' \<mapsto> IString ''1''] ''subaccountindex'' = None"
    by simp_all
  have 3: "json_Unmarshal_V1 test_env (bytes_of_string ''legacy'') =
      Inr \<lparr>V1_Address = ''01'', V1_Crypto = cryptoJSON_zero, V1_Id = ''07'', V1_Version = ''1''\<rparr>"
    by (simp add: test_env_def)
  have 4: "decryptKeyV1 test_env
      \<lparr>V1_Address = ''01'', V1_Crypto = cryptoJSON_zero, V1_Id = ''07'', V1_Version = ''1''\<rparr> ''pw'' =
      Inr ([1, 2, 3], [7])"
    by (simp add: test_env_def)
  note th = legacy_record_decrypts_to_sentinel [OF 1 2 3 4]
  have a: "ToECDSAUnsafe test_env [1, 2, 3] = \<lparr>PublicKey = [1, 2, 3], D = [1, 2, 3]\<rparr>"
    by code_simp
  have b: "PubkeyToAddress test_env [1, 2, 3] = [1, 2, 3] @ replicate 17 0"
    by code_simp
  show ?thesis unfolding th a by (simp add: b)
qed

text \<open>
  C7, as stated, does not hold for the empty extended key that \<^verbatim>\<open>DecryptKey\<close> puts into
  a key record: it is a key, not a nil pointer, and \<^verbatim>\<open>EncryptExtendedKey\<close> encrypts its
  serialized string as it does for any key. What it returns is not the empty blob.
\<close>

theorem empty_sentinel_encrypts_counterexample:
  "NewKeyFromString test_env (EmptyExtendedKeyString test_env) = Inr ExtendedKey_zero \<and>
   EncryptExtendedKey test_env test_rnd (Some ExtendedKey_zero) ''pw'' 2 1 \<noteq> Inr cryptoJSON_zero"
  using EncryptExtendedKey_Some_not_zero [of test_env test_rnd ExtendedKey_zero "''pw''" 2 1]
  by (simp add: NewKeyFromString_def)

text \<open>
  C7, amended. \<^verbatim>\<open>EncryptExtendedKey\<close> returns the empty blob and no error, whatever the
  passphrase and the cost parameters, when the key is absent (a nil pointer); and
  \<^verbatim>\<open>decryptExtendedKey\<close> returns the sentinel string for a blob with no ciphertext,
  whatever the passphrase, the MAC and the other fields of the record.
\<close>

theorem empty_key_shortcut:
  "EncryptExtendedKey E rnd None auth scryptN scryptP = Inr cryptoJSON_zero \<and>
   (length (CipherText (V3_ExtendedKey kp)) = 0 \<longrightarrow>
      decryptExtendedKey E kp auth = Inr (bytes_of_string (EmptyExtendedKeyString E)))"
  by (simp add: EncryptExtendedKey_def decryptExtendedKey_def)

text \<open>
  C7, amended, on the test instance; the record has a MAC that is not even hexadecimal.
\<close>

theorem empty_key_shortcut_witness:
  "EncryptExtendedKey test_env test_rnd None ''pw'' 2 1 = Inr cryptoJSON_zero \<and>
   length (CipherText (V3_ExtendedKey (test_record (cryptoJSON_zero\<lparr>MAC := ''zz''\<rparr>)))) = 0 \<and>
   decryptExtendedKey test_env (test_record (cryptoJSON_zero\<lparr>MAC := ''zz''\<rparr>)) ''any'' =
     Inr (bytes_of_string ''Zeroed extended key'')"
proof -
  have l: "length (CipherText (V3_ExtendedKey (test_record (cryptoJSON_zero\<lparr>MAC := ''zz''\<rparr>)))) = 0"
    by (simp add: test_record_def cryptoJSON_zero_def)
  have e: "EmptyExtendedKeyString test_env = ''Zeroed extended key''"
    by (simp add: test_env_def)
  from empty_key_shortcut [where E = test_env and rnd = test_rnd and auth = "''any''"
      and kp = "test_record (cryptoJSON_zero\<lparr>MAC := ''zz''\<rparr>)"] l e
    empty_key_shortcut [where E = test_env and rnd = test_rnd and auth = "''pw''"
      and scryptN = 2 and scryptP = 1]
  show ?thesis by simp
qed

text \<open>
  C8, as stated, does not hold: \<^verbatim>\<open>IncSubAccountIndex\<close> never calls \<^verbatim>\<open>zeroKey\<close>, and
  \<^verbatim>\<open>ImportExtendedKey\<close> does not call it where it succeeds. On the test key store
  both return with the key bytes as they were.
\<close>

theorem exit_paths_not_zeroed_counterexample:
  "IncSubAccountIndex (test_ks 0) test_account ''pw'' =
     (None, test_ks 1, Some (test_stored_key 1)) \<and>
   PrivateKey (test_stored_key 1) = Some \<lparr>PublicKey = [1, 2, 3], D = [1, 2, 3]\<rparr> \<and>
   ImportExtendedKey test_env (test_ks 0) test_rnd 0 test_key ''pw'' =
     (test_account, None, test_ks 0, test_derived) \<and>
   PrivateKey test_derived = Some \<lparr>PublicKey = [1, 2, 3], D = [1, 2, 3]\<rparr> \<and>
   \<not> zeroed \<lparr>PublicKey = [1, 2, 3], D = [1, 2, 3]\<rparr>"
proof -
  have h1: "hasAddress (test_ks 0) (Address test_derived) = (True, test_ks 0)"
    by (simp add: hasAddress_def maybeReload_def test_ks_def test_account_def test_Address)
  have m: "maybeReload (test_ks 0) = test_ks 0"
    by (simp add: maybeReload_def test_ks_def)
  have f: "find_account (test_ks 0)
      \<lparr>AccountAddress = Address test_derived, AccountURL = \<lparr>Scheme = [], Path = []\<rparr>\<rparr> =
      Inr test_account"
    by (simp add: find_account_def test_ks_def test_account_def test_Address)
  have i: "ImportExtendedKey test_env (test_ks 0) test_rnd 0 test_key ''pw'' =
     (test_account, None, test_ks 0, test_derived)"
    by (simp add: ImportExtendedKey_def test_newKey h1 m f)
  from test_IncSubAccountIndex [of 0] i show ?thesis
    by (simp add: test_stored_key_def test_derived_def zeroed_def)
qed

text \<open>
  C8, amended. \<^verbatim>\<open>zeroKey\<close> does nothing on a nil key and sets every word of the secret
  scalar of a key to 0. \<^verbatim>\<open>ImportExtendedKey\<close> calls it on its two early error exits:
  when the derivation fails, where the key record has no private key, and when the
  lookup in the cache fails, where the derived private key is left zeroed.
\<close>

theorem zeroKey_on_early_error_exits:
  "zeroKey None = None \<and>
   (\<exists>k'. zeroKey (Some k) = Some k' \<and> zeroed k') \<and>
   (newKeyFromExtendedKey E rnd K = (key, Some err) \<longrightarrow>
      ImportExtendedKey E ks rnd now K P = (Account_zero, Some err, ks, Key_zero) \<and>
      PrivateKey Key_zero = None) \<and>
   (newKeyFromExtendedKey E rnd K = (key, None) \<and>
    hasAddress ks (Address key) = (True, ks1) \<and>
    find_account (maybeReload ks1)
      \<lparr>AccountAddress = Address key, AccountURL = \<lparr>Scheme = [], Path = []\<rparr>\<rparr> = Inl err \<longrightarrow>
      (\<exists>pk. ImportExtendedKey E ks rnd now K P =
               (Account_zero, Some err, maybeReload ks1, key\<lparr>PrivateKey := Some pk\<rparr>) \<and>
             zeroed pk))"
proof (intro conjI impI; (elim conjE)?)
  show "zeroKey None = None" by (simp add: zeroKey_def)
  show "\<exists>k'. zeroKey (Some k) = Some k' \<and> zeroed k'" using zeroKey_Some [of k] by blast
  show "PrivateKey Key_zero = None" by (simp add: Key_zero_def)
next
  assume nk: "newKeyFromExtendedKey E rnd K = (key, Some err)"
  from newKeyFromExtendedKey_error [OF nk] have "key = Key_zero" .
  with nk show "ImportExtendedKey E ks rnd now K P = (Account_zero, Some err, ks, Key_zero)"
    by (simp add: ImportExtendedKey_def zeroKey_def Key_zero_def)
next
  assume nk: "newKeyFromExtendedKey E rnd K = (key, None)"
    and h: "hasAddress ks (Address key) = (True, ks1)"
    and f: "find_account (maybeReload ks1)
      \<lparr>AccountAddress = Address key, AccountURL = \<lparr>Scheme = [], Path = []\<rparr>\<rparr> = Inl err"
  from nk obtain pk0 where pk0: "PrivateKey key = Some pk0"
    by (auto simp: newKeyFromExtendedKey_def Let_def split: sum.splits if_splits)
  from zeroKey_Some [of pk0] obtain pk where pk: "zeroKey (Some pk0) = Some pk" "zeroed pk"
    by blast
  from ImportExtendedKey_tracked(1) [OF nk h, of now P] f pk0 pk
  show "\<exists>pk. ImportExtendedKey E ks rnd now K P =
               (Account_zero, Some err, maybeReload ks1, key\<lparr>PrivateKey := Some pk\<rparr>) \<and>
             zeroed pk"
    by auto
qed

text \<open>
  C8, amended, on the test instance: a derivation that fails, and a cache that tracks
  two files for the derived address.
\<close>

theorem zeroKey_on_early_error_exits_witness:
  "zeroKey None = None \<and>
   zeroKey (Some \<lparr>PublicKey = [1, 2, 3], D = [1, 2, 3]\<rparr>) =
     Some \<lparr>PublicKey = [1, 2, 3], D = [0, 0, 0]\<rparr> \<and>
   zeroed \<lparr>PublicKey = [1, 2, 3], D = [0, 0, 0]\<rparr> \<and>
   newKeyFromExtendedKey (test_env\<lparr>ckd := \<lambda>k i. Inl (LibraryError ''invalid child'')\<rparr>)
     test_rnd test_master = (Key_zero, Some (LibraryError ''invalid child'')) \<and>
   ImportExtendedKey (test_env\<lparr>ckd := \<lambda>k i. Inl (LibraryError ''invalid child'')\<rparr>)
     test_ks_empty test_rnd 0 test_master ''pw'' =
     (Account_zero, Some (LibraryError ''invalid child''), test_ks_empty, Key_zero) \<and>
   newKeyFromExtendedKey test_env test_rnd test_key = (test_derived, None) \<and>
   hasAddress test_ks_ambiguous (Address test_derived) = (True, test_ks_ambiguous) \<and>
   find_account (maybeReload test_ks_ambiguous)
     \<lparr>AccountAddress = Address test_derived, AccountURL = \<lparr>Scheme = [], Path = []\<rparr>\<rparr> =
     Inl ErrAmbiguousAddr \<and>
   ImportExtendedKey test_env test_ks_ambiguous test_rnd 0 test_key ''pw'' =
     (Account_zero, Some ErrAmbiguousAddr, test_ks_ambiguous,
      test_derived\<lparr>PrivateKey := Some \<lparr>PublicKey = [1, 2, 3], D = [0, 0, 0]\<rparr>\<rparr>)"
proof -
  let ?E = "test_env\<lparr>ckd := \<lambda>k i. Inl (LibraryError ''invalid child'')\<rparr>"
  have z: "zeroKey (Some \<lparr>PublicKey = [1, 2, 3], D = [1, 2, 3]\<rparr>) =
     Some \<lparr>PublicKey = [1, 2, 3], D = [0, 0, 0]\<rparr>"
    by (simp add: zeroKey_def)
  have zd: "zeroed \<lparr>PublicKey = [1, 2, 3], D = [0, 0, 0]\<rparr>"
    by (simp add: zeroed_def eval_nat_numeral)
  have nk: "newKeyFromExtendedKey ?E test_rnd test_master =
      (Key_zero, Some (LibraryError ''invalid child''))"
    by (simp add: newKeyFromExtendedKey_def BIP44Child_def Child_def test_master_def)
  have m: "maybeReload test_ks_ambiguous = test_ks_ambiguous"
    by (simp add: maybeReload_def test_ks_ambiguous_def)
  have h: "hasAddress test_ks_ambiguous (Address test_derived) = (True, test_ks_ambiguous)"
    by (simp add: hasAddress_def maybeReload_def test_ks_ambiguous_def test_Address)
  have f: "find_account (maybeReload test_ks_ambiguous)
     \<lparr>AccountAddress = Address test_derived, AccountURL = \<lparr>Scheme = [], Path = []\<rparr>\<rparr> =
     Inl ErrAmbiguousAddr"
    unfolding m by (simp add: find_account_def test_ks_ambiguous_def test_Address)
  have pk: "PrivateKey test_derived = Some \<lparr>PublicKey = [1, 2, 3], D = [1, 2, 3]\<rparr>"
    by (simp add: test_derived_def)
  note th1 = zeroKey_on_early_error_exits [of "\<lparr>PublicKey = [1, 2, 3], D = [1, 2, 3]\<rparr>"
      ?E test_rnd test_master Key_zero "LibraryError ''invalid child''" test_ks_empty 0 "''pw''"]
  note th2 = zeroKey_on_early_error_exits [of "\<lparr>PublicKey = [1, 2, 3], D = [1, 2, 3]\<rparr>"
      test_env test_rnd test_key test_derived ErrAmbiguousAddr test_ks_ambiguous 0 "''pw''"
      test_ks_ambiguous]
  from th1 nk have i1: "ImportExtendedKey ?E test_ks_empty test_rnd 0 test_master ''pw'' =
     (Account_zero, Some (LibraryError ''invalid child''), test_ks_empty, Key_zero)"
    by blast
  have i2: "ImportExtendedKey test_env test_ks_ambiguous test_rnd 0 test_key ''pw'' =
     (Account_zero, Some ErrAmbiguousAddr, test_ks_ambiguous,
      test_derived\<lparr>PrivateKey := Some \<lparr>PublicKey = [1, 2, 3], D = [0, 0, 0]\<rparr>\<rparr>)"
    using ImportExtendedKey_tracked(1) [OF test_newKey h, of 0 "''pw''"] f
    by (simp add: pk zeroKey_def m)
  from th2 z zd nk i1 test_newKey h f i2 show ?thesis by (simp add: zeroKey_def)
qed

text \<open>
  C9. For a blob with a ciphertext, \<^verbatim>\<open>decryptExtendedKey\<close> returns the error
  "version not supported" when the version of the record is not the supported one, and
  otherwise the error "cipher not supported" when the cipher is not \<open>aes-128-ctr\<close>;
  nothing is decoded or decrypted before.
\<close>

theorem unsupported_format_rejected:
  assumes "length (CipherText (V3_ExtendedKey kp)) \<noteq> 0"
    and "V3_Version kp \<noteq> version E \<or> Cipher (V3_ExtendedKey kp) \<noteq> ''aes-128-ctr''"
  shows "decryptExtendedKey E kp auth =
           (if V3_Version kp \<noteq> version E then Inl (VersionNotSupported (V3_Version kp))
            else Inl (CipherNotSupported (Cipher (V3_ExtendedKey kp))))"
  using assms by (auto simp add: decryptExtendedKey_def)

text \<open>
  C9 on the test instance: another cipher, and another version.
\<close>

theorem unsupported_format_rejected_witness:
  "decryptExtendedKey test_env (test_record (test_blob\<lparr>Cipher := ''aes-256-gcm''\<rparr>)) ''ab'' =
     Inl (CipherNotSupported ''aes-256-gcm'') \<and>
   decryptExtendedKey test_env ((test_record test_blob)\<lparr>V3_Version := 4\<rparr>) ''ab'' =
     Inl (VersionNotSupported 4)"
proof -
  have a: "length (CipherText (V3_ExtendedKey (test_record (test_blob\<lparr>Cipher := ''aes-256-gcm''\<rparr>)))) \<noteq> 0"
    "length (CipherText (V3_ExtendedKey ((test_record test_blob)\<lparr>V3_Version := 4\<rparr>))) \<noteq> 0"
    by (simp_all add: test_record_def test_blob_def)
  have b: "V3_Version (test_record (test_blob\<lparr>Cipher := ''aes-256-gcm''\<rparr>)) \<noteq> version test_env \<or>
        Cipher (V3_ExtendedKey (test_record (test_blob\<lparr>Cipher := ''aes-256-gcm''\<rparr>))) \<noteq> ''aes-128-ctr''"
    by (simp add: test_record_def)
  have c: "V3_Version ((test_record test_blob)\<lparr>V3_Version := 4\<rparr>) \<noteq> version test_env \<or>
        Cipher (V3_ExtendedKey ((test_record test_blob)\<lparr>V3_Version := 4\<rparr>)) \<noteq> ''aes-128-ctr''"
    by (simp add: test_env_def)
  from unsupported_format_rejected [OF a(1) b, of "''ab''"]
    unsupported_format_rejected [OF a(2) c, of "''ab''"]
  show ?thesis by (simp add: test_record_def test_env_def)
qed

text \<open>
  C10. A key record that \<^verbatim>\<open>DecryptKey\<close> returns has a derivation root: the empty
  extended key for a legacy record and for a record whose extended-key blob has no
  ciphertext, and otherwise the key decoded from the decrypted blob.
\<close>

theorem DecryptKey_ExtendedKey_not_nil:
  assumes "DecryptKey E keyjson auth = Inr key"
  shows "\<exists>m ek. json_Unmarshal_map E keyjson = Inr m \<and> ExtendedKey key = Some ek \<and>
           (if m ''version'' = Some (IString ''1'') then ek = ExtendedKey_zero
            else \<exists>k pt. json_Unmarshal_V3 E keyjson = Inr k \<and>
                   decryptExtendedKey E k auth = Inr pt \<and>
                   NewKeyFromString E (string_of_bytes pt) = Inr ek \<and>
                   (length (CipherText (V3_ExtendedKey k)) = 0 \<longrightarrow> ek = ExtendedKey_zero))"
proof -
  from assms obtain m where m: "json_Unmarshal_map E keyjson = Inr m"
    by (auto simp: DecryptKey_def split: sum.splits)
  show ?thesis
  proof (cases "m ''version'' = Some (IString ''1'')")
    case True
    with assms m have "ExtendedKey key = Some ExtendedKey_zero"
      by (auto simp: DecryptKey_def NewKeyFromString_def Let_def split: sum.splits prod.splits)
    with m True show ?thesis by simp
  next
    case False
    with assms m obtain k pt ek where
      k: "json_Unmarshal_V3 E keyjson = Inr k"
      and pt: "decryptExtendedKey E k auth = Inr pt"
      and ek: "NewKeyFromString E (string_of_bytes pt) = Inr ek"
      and key: "ExtendedKey key = Some ek"
      by (auto simp: DecryptKey_def Let_def split: sum.splits prod.splits)
    have "ek = ExtendedKey_zero" if "length (CipherText (V3_ExtendedKey k)) = 0"
      using that pt ek
      by (auto simp add: decryptExtendedKey_no_ciphertext string_of_bytes_of_string
          NewKeyFromString_def)
    with k pt ek key m False show ?thesis by auto
  qed
qed

text \<open>
  C10 on the test instance: a record of the current version with an empty blob.
\<close>

theorem DecryptKey_ExtendedKey_not_nil_witness:
  "DecryptKey test_env (bytes_of_string ''current'') ''pw'' =
     Inr \<lparr>Id = [7], Address = [1, 2, 3] @ replicate 17 0,
          PrivateKey = Some \<lparr>PublicKey = [1, 2, 3], D = [1, 2, 3]\<rparr>,
          ExtendedKey = Some ExtendedKey_zero, SubAccountIndex = 2\<rparr> \<and>
   ExtendedKey \<lparr>Id = [7], Address = [1, 2, 3] @ replicate 17 0,
          PrivateKey = Some \<lparr>PublicKey = [1, 2, 3], D = [1, 2, 3]\<rparr>,
          ExtendedKey = Some ExtendedKey_zero, SubAccountIndex = 2\<rparr> \<noteq> None"
proof -
  have d: "DecryptKey test_env (bytes_of_string ''current'') ''pw'' =
     Inr \<lparr>Id = [7], Address = [1, 2, 3] @ replicate 17 0,
          PrivateKey = Some \<lparr>PublicKey = [1, 2, 3], D = [1, 2, 3]\<rparr>,
          ExtendedKey = Some ExtendedKey_zero, SubAccountIndex = 2\<rparr>"
    by code_simp
  from DecryptKey_ExtendedKey_not_nil [OF d] d show ?thesis by auto
qed

end
